theory Spec2Isabelle
  imports Main Complex_Main "HOL-Library.Multiset"
begin

section \<open>Python values used by the training loop\<close>

text \<open>
  A Python float is a finite binary64 value, one of the two infinities, or NaN.  A finite
  value is represented by the real number it denotes, so comparisons are exact.  The
  rounding of \<open>+\<close> and \<open>/\<close> is not fixed here: both operations are taken from the
  numeric environment (see \<open>framework\<close> below).
\<close>

datatype pyfloat = Finite real | PosInf | NegInf | NaN

text \<open>The comparison \<open>a < b\<close> of two floats: false as soon as one side is NaN.\<close>

fun flt :: "pyfloat \<Rightarrow> pyfloat \<Rightarrow> bool" where
  "flt NaN b = False"
| "flt a NaN = False"
| "flt (Finite x) (Finite y) = (x < y)"
| "flt (Finite x) PosInf = True"
| "flt (Finite x) NegInf = False"
| "flt PosInf b = False"
| "flt NegInf NegInf = False"
| "flt NegInf b = True"

datatype error = ZeroDivisionError | ValueError

section \<open>The input table and the hyperparameters\<close>

text \<open>
  A row of the dataframe: the three boolean membership columns \<open>train\<close>, \<open>val\<close>,
  \<open>test\<close> and the remaining columns.
\<close>

record 'd row =
  col_train :: bool
  col_val :: bool
  col_test :: bool
  payload :: 'd

text \<open>\<open>df["name"]\<close> is the column as a series, \<open>a | b\<close> the elementwise or of two series,
  \<open>df[mask]\<close> keeps the rows whose mask entry is true, in order.\<close>

definition column :: "('d row \<Rightarrow> bool) \<Rightarrow> 'd row list \<Rightarrow> bool list" where
  "column c df = map c df"

definition series_or :: "bool list \<Rightarrow> bool list \<Rightarrow> bool list" where
  "series_or a b = map (\<lambda>(x, y). x \<or> y) (zip a b)"

definition mask_select :: "'d row list \<Rightarrow> bool list \<Rightarrow> 'd row list" where
  "mask_select df msk = map fst (filter snd (zip df msk))"

text \<open>Lines 102 to 107 of \<open>train_loop\<close>: the pair \<open>(train_df, val_df)\<close>.\<close>

definition split_df :: "bool \<Rightarrow> 'd row list \<Rightarrow> 'd row list \<times> 'd row list" where
  "split_df merge_train_val df =
     (if merge_train_val
      then (mask_select df (series_or (column col_train df) (column col_val df)),
            mask_select df (column col_test df))
      else (mask_select df (column col_train df),
            mask_select df (column col_val df)))"

record hyperparameters =
  hp_batch_size :: int
  hp_lr :: pyfloat
  hp_min_lr :: pyfloat
  hp_epochs :: int
  hp_clip_grad :: pyfloat

section \<open>The numeric framework and the mutable objects\<close>

text \<open>
  The seeding of the random number generators, the creation of the experiment directory,
  the dump of the hyperparameters, the transfer of tensors to the device and the progress
  bars are left out: nothing below depends on them.

  Everything the file delegates to the numeric framework is a field of \<open>framework\<close>:
  the model's forward pass followed by the criterion and \<open>.item()\<close> (\<open>forward_loss\<close>,
  depending on the mode flag of the model, its parameters and the batch), the backward
  pass, gradient clipping, the optimizer update, the closed form of the scheduler, the
  construction of model and optimizer, the dataset built from a table (the list of its
  samples), the random keys by which a shuffling loader orders the samples in each of its
  rounds, the collation of samples into a batch, and float addition and division by a
  length.  A forward pass is a function of the mode flag, the parameters and the
  batch: it reads the model and does not write it.
\<close>

record ('p, 'g, 'o, 'b, 'd, 's) framework =
  build_model :: "hyperparameters \<Rightarrow> 'p"
  init_optimizer :: "hyperparameters \<Rightarrow> 'p \<Rightarrow> 'o"
  no_grads :: "'g"
  zero_grad :: "'g \<Rightarrow> 'g"
  forward_loss :: "bool \<Rightarrow> 'p \<Rightarrow> 'b \<Rightarrow> pyfloat"
  backward :: "'p \<Rightarrow> 'b \<Rightarrow> 'g \<Rightarrow> 'g"
  clip_grad_norm :: "pyfloat \<Rightarrow> 'g \<Rightarrow> 'g"
  optimizer_step :: "pyfloat \<Rightarrow> 'o \<Rightarrow> 'p \<Rightarrow> 'g \<Rightarrow> 'p \<times> 'o"
  scheduler_lr :: "hyperparameters \<Rightarrow> nat \<Rightarrow> pyfloat \<Rightarrow> pyfloat"
  dataset :: "hyperparameters \<Rightarrow> 'd row list \<Rightarrow> 's list"
  rand_keys :: "nat \<Rightarrow> nat \<Rightarrow> nat"
  collate :: "'s list \<Rightarrow> 'b"
  float_add :: "pyfloat \<Rightarrow> pyfloat \<Rightarrow> pyfloat"
  float_div :: "pyfloat \<Rightarrow> nat \<Rightarrow> pyfloat"

text \<open>The calls that the properties below are about, recorded in the order they happen.\<close>

datatype 'p event =
    ForwardPass bool bool
  | OptimizerStep
  | SchedulerStep
  | ReadLR pyfloat
  | PrintEpoch nat pyfloat pyfloat pyfloat
  | SaveModel 'p
  | PrintEarlyStop int
  | WandbLog pyfloat pyfloat pyfloat pyfloat
  | PrintSkipLog

text \<open>
  The objects the run mutates: the model (its parameters, its mode flag, the gradients
  stored with the parameters), the global gradient-tracking switch, the optimizer (its
  state and \<open>param_groups[0]["lr"]\<close>), the scheduler's step count, what this run has
  stored in \<open>model.pth\<close> (\<open>None\<close> before the first write), and the trace of events.
  \<open>ForwardPass t g\<close> records a forward pass with mode flag \<open>t\<close> and gradient tracking \<open>g\<close>.
\<close>

record ('p, 'g, 'o) world =
  params :: 'p
  training :: bool
  grads :: 'g
  grad_enabled :: bool
  opt_state :: 'o
  lr :: pyfloat
  last_epoch :: nat
  model_pth :: "'p option"
  trace :: "'p event list"

definition emit :: "'p event \<Rightarrow> ('p, 'g, 'o) world \<Rightarrow> ('p, 'g, 'o) world" where
  "emit e w = w\<lparr>trace := trace w @ [e]\<rparr>"

section \<open>The data loaders\<close>

text \<open>
  \<open>DataLoader(dataset, batch_size=..., shuffle=...)\<close>.  The construction raises ValueError
  when \<open>shuffle\<close> is set and the dataset is empty (the random sampler wants a positive
  number of samples), and when the batch size is not positive (the batch sampler).
\<close>

record 's data_loader =
  dl_samples :: "'s list"
  dl_batch_size :: nat
  dl_shuffle :: bool

definition DataLoader :: "'s list \<Rightarrow> int \<Rightarrow> bool \<Rightarrow> error + 's data_loader" where
  "DataLoader ds batch_size shuffle =
     (if shuffle \<and> ds = [] then Inl ValueError
      else if batch_size \<le> 0 then Inl ValueError
      else Inr \<lparr>dl_samples = ds, dl_batch_size = nat batch_size, dl_shuffle = shuffle\<rparr>)"

text \<open>The batch sampler: it fills a batch with the indices it is given, hands the batch
  on when it has \<open>batch_size\<close> entries, and hands on what is left at the end.\<close>

fun batch_sampler :: "nat \<Rightarrow> nat list \<Rightarrow> nat list \<Rightarrow> nat list list" where
  "batch_sampler batch_size batch [] = (if batch = [] then [] else [batch])"
| "batch_sampler batch_size batch (idx # rest) =
     (if length (batch @ [idx]) = batch_size
      then (batch @ [idx]) # batch_sampler batch_size [] rest
      else batch_sampler batch_size (batch @ [idx]) rest)"

text \<open>The order of the indices in one round over the loader: as they are, or, when the
  loader shuffles, a permutation of them, here the one that sorts them by the random keys
  of that round.\<close>

definition loader_order ::
  "('p, 'g, 'o, 'b, 'd, 's) framework \<Rightarrow> 's data_loader \<Rightarrow> nat \<Rightarrow> nat list" where
  "loader_order fw loader k =
     (if dl_shuffle loader
      then sort_key (rand_keys fw k) [0 ..< length (dl_samples loader)]
      else [0 ..< length (dl_samples loader)])"

text \<open>The batches of one round over the loader; \<open>len(loader)\<close> is their number.\<close>

definition loader_batches ::
  "('p, 'g, 'o, 'b, 'd, 's) framework \<Rightarrow> 's data_loader \<Rightarrow> nat \<Rightarrow> 'b list" where
  "loader_batches fw loader k =
     map (\<lambda>batch. collate fw (map (\<lambda>i. dl_samples loader ! i) batch))
       (batch_sampler (dl_batch_size loader) [] (loader_order fw loader k))"

section \<open>train\<close>

text \<open>The body of the \<open>for\<close> loop of \<open>train\<close> (lines 23 to 38), for the batches in order;
  the second component is \<open>total_loss\<close>.\<close>

fun train_batches ::
  "('p, 'g, 'o, 'b, 'd, 's) framework \<Rightarrow> hyperparameters \<Rightarrow> 'b list \<Rightarrow>
   ('p, 'g, 'o) world \<times> pyfloat \<Rightarrow> ('p, 'g, 'o) world \<times> pyfloat" where
  "train_batches fw hp [] (w, total_loss) = (w, total_loss)"
| "train_batches fw hp (b # bs) (w, total_loss) =
     (let g0 = zero_grad fw (grads w);
          loss = forward_loss fw (training w) (params w) b;
          g1 = backward fw (params w) b g0;
          g2 = clip_grad_norm fw (hp_clip_grad hp) g1;
          (p', o') = optimizer_step fw (lr w) (opt_state w) (params w) g2;
          w' = emit OptimizerStep (emit (ForwardPass (training w) (grad_enabled w))
                 (w\<lparr>params := p', grads := g2, opt_state := o'\<rparr>))
      in train_batches fw hp bs (w', float_add fw total_loss loss))"

text \<open>\<open>scheduler.step()\<close>: one more epoch counted, the optimizer's learning rate rewritten.\<close>

definition scheduler_step ::
  "('p, 'g, 'o, 'b, 'd, 's) framework \<Rightarrow> hyperparameters \<Rightarrow> ('p, 'g, 'o) world \<Rightarrow> ('p, 'g, 'o) world" where
  "scheduler_step fw hp w =
     emit SchedulerStep
       (w\<lparr>last_epoch := Suc (last_epoch w),
          lr := scheduler_lr fw hp (Suc (last_epoch w)) (lr w)\<rparr>)"

text \<open>\<open>total_loss / len(loader)\<close>: Python raises when the length is 0.\<close>

definition mean_loss ::
  "('p, 'g, 'o, 'b, 'd, 's) framework \<Rightarrow> pyfloat \<Rightarrow> nat \<Rightarrow> error + pyfloat" where
  "mean_loss fw total_loss n =
     (if n = 0 then Inl ZeroDivisionError else Inr (float_div fw total_loss n))"

definition train ::
  "('p, 'g, 'o, 'b, 'd, 's) framework \<Rightarrow> hyperparameters \<Rightarrow> 'b list \<Rightarrow>
   ('p, 'g, 'o) world \<Rightarrow> (error + pyfloat) \<times> ('p, 'g, 'o) world" where
  "train fw hp train_loader w =
     (let w1 = w\<lparr>training := True\<rparr>;
          (w2, total_loss) = train_batches fw hp train_loader (w1, Finite 0);
          w3 = scheduler_step fw hp w2
      in (mean_loss fw total_loss (length train_loader), w3))"

section \<open>validate\<close>

text \<open>The body of the \<open>for\<close> loop of \<open>validate\<close> (lines 50 to 59).\<close>

fun validate_batches ::
  "('p, 'g, 'o, 'b, 'd, 's) framework \<Rightarrow> 'b list \<Rightarrow>
   ('p, 'g, 'o) world \<times> pyfloat \<Rightarrow> ('p, 'g, 'o) world \<times> pyfloat" where
  "validate_batches fw [] (w, total_loss) = (w, total_loss)"
| "validate_batches fw (b # bs) (w, total_loss) =
     (let loss = forward_loss fw (training w) (params w) b;
          w' = emit (ForwardPass (training w) (grad_enabled w)) w
      in validate_batches fw bs (w', float_add fw total_loss loss))"

text \<open>\<open>with torch.no_grad()\<close> switches gradient tracking off and restores the previous
  setting when the block is left.\<close>

definition validate ::
  "('p, 'g, 'o, 'b, 'd, 's) framework \<Rightarrow> 'b list \<Rightarrow>
   ('p, 'g, 'o) world \<Rightarrow> (error + pyfloat) \<times> ('p, 'g, 'o) world" where
  "validate fw val_loader w =
     (let w1 = w\<lparr>training := False\<rparr>;
          prev = grad_enabled w1;
          (w2, total_loss) = validate_batches fw val_loader (w1\<lparr>grad_enabled := False\<rparr>, Finite 0);
          w3 = w2\<lparr>grad_enabled := prev\<rparr>
      in (mean_loss fw total_loss (length val_loader), w3))"

section \<open>train\_loop\<close>

text \<open>How one pass through the body of the epoch loop ends.\<close>

datatype ctl = Next | Break | Raise error

text \<open>The local variables \<open>best_val_loss\<close> and \<open>patience_counter\<close> with the objects.\<close>

record ('p, 'g, 'o) run_state =
  objects :: "('p, 'g, 'o) world"
  best_val_loss :: pyfloat
  patience_counter :: int

text \<open>Lines 152 to 157: the comparison with the best loss so far.\<close>

definition update_best ::
  "pyfloat \<Rightarrow> ('p, 'g, 'o) run_state \<Rightarrow> ('p, 'g, 'o) run_state" where
  "update_best val_loss s =
     (if flt val_loss (best_val_loss s)
      then \<lparr>objects = emit (SaveModel (params (objects s)))
                        ((objects s)\<lparr>model_pth := Some (params (objects s))\<rparr>),
            best_val_loss = val_loss,
            patience_counter = 0\<rparr>
      else s\<lparr>patience_counter := patience_counter s + 1\<rparr>)"

text \<open>Lines 159 to 175: the early stop, then the metrics.\<close>

definition stop_or_log ::
  "bool \<Rightarrow> int \<Rightarrow> pyfloat \<Rightarrow> pyfloat \<Rightarrow> pyfloat \<Rightarrow> ('p, 'g, 'o) run_state \<Rightarrow>
   ctl \<times> ('p, 'g, 'o) run_state" where
  "stop_or_log log_wandb patience train_loss val_loss lr_now s =
     (if patience_counter s \<ge> patience
      then (Break, s\<lparr>objects := emit (PrintEarlyStop patience) (objects s)\<rparr>)
      else if log_wandb
      then (Next, s\<lparr>objects := emit (WandbLog train_loss val_loss (best_val_loss s) lr_now) (objects s)\<rparr>)
      else (Next, s\<lparr>objects := emit PrintSkipLog (objects s)\<rparr>))"

text \<open>The body of the epoch loop (lines 138 to 175) for epoch number \<open>epoch\<close>.\<close>

definition loop_body ::
  "('p, 'g, 'o, 'b, 'd, 's) framework \<Rightarrow> hyperparameters \<Rightarrow> (nat \<Rightarrow> 'b list) \<Rightarrow> 'b list \<Rightarrow>
   bool \<Rightarrow> int \<Rightarrow> nat \<Rightarrow> ('p, 'g, 'o) run_state \<Rightarrow> ctl \<times> ('p, 'g, 'o) run_state" where
  "loop_body fw hp train_loader val_loader log_wandb patience epoch s =
     (case train fw hp (train_loader epoch) (objects s) of
        (Inl e, w1) \<Rightarrow> (Raise e, s\<lparr>objects := w1\<rparr>)
      | (Inr train_loss, w1) \<Rightarrow>
          (case validate fw val_loader w1 of
             (Inl e, w2) \<Rightarrow> (Raise e, s\<lparr>objects := w2\<rparr>)
           | (Inr val_loss, w2) \<Rightarrow>
               (let lr_now = lr w2;
                    w3 = emit (PrintEpoch (epoch + 1) train_loss val_loss lr_now)
                           (emit (ReadLR lr_now) w2);
                    s1 = update_best val_loss (s\<lparr>objects := w3\<rparr>)
                in stop_or_log log_wandb patience train_loss val_loss lr_now s1)))"

text \<open>\<open>for epoch in range(num_epochs)\<close> with its \<open>break\<close>; an exception leaves the loop too.\<close>

fun epoch_loop ::
  "('p, 'g, 'o, 'b, 'd, 's) framework \<Rightarrow> hyperparameters \<Rightarrow> (nat \<Rightarrow> 'b list) \<Rightarrow> 'b list \<Rightarrow>
   bool \<Rightarrow> int \<Rightarrow> nat list \<Rightarrow> ('p, 'g, 'o) run_state \<Rightarrow> ctl \<times> ('p, 'g, 'o) run_state" where
  "epoch_loop fw hp train_loader val_loader log_wandb patience [] s = (Next, s)"
| "epoch_loop fw hp train_loader val_loader log_wandb patience (epoch # rest) s =
     (case loop_body fw hp train_loader val_loader log_wandb patience epoch s of
        (Next, s') \<Rightarrow> epoch_loop fw hp train_loader val_loader log_wandb patience rest s'
      | (c, s') \<Rightarrow> (c, s'))"

text \<open>The objects as \<open>train_loop\<close> builds them before the loop (lines 120 to 131): a new
  module is in training mode, gradient tracking is on, the scheduler has counted no epoch.\<close>

definition init_world ::
  "('p, 'g, 'o, 'b, 'd, 's) framework \<Rightarrow> hyperparameters \<Rightarrow> ('p, 'g, 'o) world" where
  "init_world fw hp =
     \<lparr>params = build_model fw hp, training = True, grads = no_grads fw,
      grad_enabled = True, opt_state = init_optimizer fw hp (build_model fw hp),
      lr = hp_lr hp, last_epoch = 0, model_pth = None, trace = []\<rparr>"

definition init_state ::
  "('p, 'g, 'o, 'b, 'd, 's) framework \<Rightarrow> hyperparameters \<Rightarrow> ('p, 'g, 'o) run_state" where
  "init_state fw hp =
     \<lparr>objects = init_world fw hp, best_val_loss = PosInf, patience_counter = 0\<rparr>"

text \<open>The run up to the \<open>return\<close>: the way it ended and the final state.  The loaders are
  built first (lines 109 to 117); when that fails nothing else has happened.  The training
  loader shuffles anew in every epoch, the validation loader does not shuffle.\<close>

definition run_loop ::
  "('p, 'g, 'o, 'b, 'd, 's) framework \<Rightarrow> hyperparameters \<Rightarrow> 'd row list \<Rightarrow> bool \<Rightarrow> bool \<Rightarrow> int \<Rightarrow>
   ctl \<times> ('p, 'g, 'o) run_state" where
  "run_loop fw hp df merge_train_val log_wandb patience =
     (let (train_df, val_df) = split_df merge_train_val df;
          train_dataset = dataset fw hp train_df;
          val_dataset = dataset fw hp val_df
      in case DataLoader train_dataset (hp_batch_size hp) True of
           Inl e \<Rightarrow> (Raise e, init_state fw hp)
         | Inr train_loader \<Rightarrow>
             (case DataLoader val_dataset (hp_batch_size hp) False of
                Inl e \<Rightarrow> (Raise e, init_state fw hp)
              | Inr val_loader \<Rightarrow>
                  (let num_epochs = hp_epochs hp
                   in epoch_loop fw hp (\<lambda>epoch. loader_batches fw train_loader epoch)
                        (loader_batches fw val_loader 0) log_wandb patience
                        [0 ..< nat num_epochs] (init_state fw hp))))"

definition train_loop ::
  "('p, 'g, 'o, 'b, 'd, 's) framework \<Rightarrow> hyperparameters \<Rightarrow> 'd row list \<Rightarrow> bool \<Rightarrow> bool \<Rightarrow> int \<Rightarrow>
   error + pyfloat" where
  "train_loop fw hp df merge_train_val log_wandb patience =
     (case run_loop fw hp df merge_train_val log_wandb patience of
        (Raise e, s) \<Rightarrow> Inl e
      | (c, s) \<Rightarrow> Inr (best_val_loss s))"

section \<open>A small framework to run the definitions\<close>

text \<open>
  Exact arithmetic on floats, and a framework whose model parameter is the number of
  optimizer updates made so far: a training batch has loss 1, a validation batch has the
  loss that the table \<open>vs\<close> gives for the number of updates, the scheduler sets the learning
  rate to the number of epochs it has counted, and the dataset has one sample per row.
\<close>

fun exact_add :: "pyfloat \<Rightarrow> pyfloat \<Rightarrow> pyfloat" where
  "exact_add NaN b = NaN"
| "exact_add a NaN = NaN"
| "exact_add (Finite x) (Finite y) = Finite (x + y)"
| "exact_add PosInf NegInf = NaN"
| "exact_add NegInf PosInf = NaN"
| "exact_add (Finite x) b = b"
| "exact_add a b = a"

fun exact_div :: "pyfloat \<Rightarrow> nat \<Rightarrow> pyfloat" where
  "exact_div (Finite x) n = Finite (x / real n)"
| "exact_div a n = a"

definition lookup_loss :: "pyfloat list \<Rightarrow> nat \<Rightarrow> pyfloat" where
  "lookup_loss vs k = (if k < length vs then vs ! k else NaN)"

definition table_framework :: "pyfloat list \<Rightarrow> (nat, unit, unit, unit, unit, unit) framework" where
  "table_framework vs =
     \<lparr>build_model = (\<lambda>hp. 0),
      init_optimizer = (\<lambda>hp p. ()),
      no_grads = (),
      zero_grad = (\<lambda>g. g),
      forward_loss = (\<lambda>t p b. if t then Finite 1 else (case p of 0 \<Rightarrow> NaN | Suc k \<Rightarrow> lookup_loss vs k)),
      backward = (\<lambda>p b g. g),
      clip_grad_norm = (\<lambda>c g. g),
      optimizer_step = (\<lambda>l s p g. (Suc p, s)),
      scheduler_lr = (\<lambda>hp k l. Finite (real k)),
      dataset = (\<lambda>hp rows. map payload rows),
      rand_keys = (\<lambda>k i. i),
      collate = (\<lambda>samples. ()),
      float_add = exact_add,
      float_div = exact_div\<rparr>"

definition table_hp :: "int \<Rightarrow> hyperparameters" where
  "table_hp n = \<lparr>hp_batch_size = 1, hp_lr = Finite 0, hp_min_lr = Finite 0,
                 hp_epochs = n, hp_clip_grad = Finite 1\<rparr>"

definition table_df :: "unit row list" where
  "table_df = [\<lparr>col_train = True, col_val = False, col_test = False, payload = ()\<rparr>,
               \<lparr>col_train = False, col_val = True, col_test = False, payload = ()\<rparr>]"

section \<open>Binary64 arithmetic\<close>

text \<open>
  Python's float is IEEE 754 binary64: the exact result of an addition or a division is
  rounded to the nearest value with 53 significant bits, a tie going to the value with
  the even significand; below \<open>2 ^ (- 1022)\<close> the spacing stays that of the smallest normal
  exponent, and a rounded result of magnitude \<open>2 ^ 1024\<close> or more is an infinity.
\<close>

definition pow2 :: "int \<Rightarrow> real" where
  "pow2 e = (if 0 \<le> e then 2 ^ nat e else 1 / 2 ^ nat (- e))"

definition round_half_even :: "real \<Rightarrow> int" where
  "round_half_even x =
     (let f = \<lfloor>x\<rfloor>; d = x - of_int f
      in if d < 1 / 2 then f else if 1 / 2 < d then f + 1 else if even f then f else f + 1)"

definition ulp_exponent :: "real \<Rightarrow> int" where
  "ulp_exponent x = max \<lfloor>log 2 \<bar>x\<bar>\<rfloor> (- 1022) - 52"

definition overflow_threshold :: real where
  "overflow_threshold = 2 ^ 1024"

definition round64 :: "real \<Rightarrow> pyfloat" where
  "round64 x =
     (if x = 0 then Finite 0
      else let q = pow2 (ulp_exponent x);
               y = of_int (round_half_even (x / q)) * q
           in if overflow_threshold \<le> y then PosInf
              else if y \<le> - overflow_threshold then NegInf
              else Finite y)"

fun binary64_add :: "pyfloat \<Rightarrow> pyfloat \<Rightarrow> pyfloat" where
  "binary64_add NaN b = NaN"
| "binary64_add a NaN = NaN"
| "binary64_add (Finite x) (Finite y) = round64 (x + y)"
| "binary64_add PosInf NegInf = NaN"
| "binary64_add NegInf PosInf = NaN"
| "binary64_add (Finite x) b = b"
| "binary64_add a b = a"

fun binary64_div :: "pyfloat \<Rightarrow> nat \<Rightarrow> pyfloat" where
  "binary64_div (Finite x) n = round64 (x / real n)"
| "binary64_div a n = a"

text \<open>A framework like the one above, with binary64 arithmetic, in which a batch is its own
  loss.\<close>

definition binary64_framework :: "(nat, unit, unit, pyfloat, pyfloat, pyfloat) framework" where
  "binary64_framework =
     \<lparr>build_model = (\<lambda>hp. 0),
      init_optimizer = (\<lambda>hp p. ()),
      no_grads = (),
      zero_grad = (\<lambda>g. g),
      forward_loss = (\<lambda>t p b. b),
      backward = (\<lambda>p b g. g),
      clip_grad_norm = (\<lambda>c g. g),
      optimizer_step = (\<lambda>l s p g. (Suc p, s)),
      scheduler_lr = (\<lambda>hp k l. l),
      dataset = (\<lambda>hp rows. map payload rows),
      rand_keys = (\<lambda>k i. i),
      collate = (\<lambda>samples. case samples of [] \<Rightarrow> NaN | x # rest \<Rightarrow> x),
      float_add = binary64_add,
      float_div = binary64_div\<rparr>"

section \<open>Reading a run\<close>

text \<open>The results of the trainer and of the validator in the epoch that starts in state
  \<open>s\<close>, and the objects after both have run.\<close>

definition epoch_train_loss ::
  "('p, 'g, 'o, 'b, 'd, 's) framework \<Rightarrow> hyperparameters \<Rightarrow> (nat \<Rightarrow> 'b list) \<Rightarrow>
   nat \<Rightarrow> ('p, 'g, 'o) run_state \<Rightarrow> error + pyfloat" where
  "epoch_train_loss fw hp train_loader epoch s = fst (train fw hp (train_loader epoch) (objects s))"

definition epoch_val_loss ::
  "('p, 'g, 'o, 'b, 'd, 's) framework \<Rightarrow> hyperparameters \<Rightarrow> (nat \<Rightarrow> 'b list) \<Rightarrow> 'b list \<Rightarrow>
   nat \<Rightarrow> ('p, 'g, 'o) run_state \<Rightarrow> error + pyfloat" where
  "epoch_val_loss fw hp train_loader val_loader epoch s =
     fst (validate fw val_loader (snd (train fw hp (train_loader epoch) (objects s))))"

definition epoch_objects ::
  "('p, 'g, 'o, 'b, 'd, 's) framework \<Rightarrow> hyperparameters \<Rightarrow> (nat \<Rightarrow> 'b list) \<Rightarrow> 'b list \<Rightarrow>
   nat \<Rightarrow> ('p, 'g, 'o) run_state \<Rightarrow> ('p, 'g, 'o) world" where
  "epoch_objects fw hp train_loader val_loader epoch s =
     snd (validate fw val_loader (snd (train fw hp (train_loader epoch) (objects s))))"

text \<open>The losses \<open>loss.item()\<close> of the batches of one pass of the trainer's loop, in the order
  of the batches.\<close>

fun batch_losses ::
  "('p, 'g, 'o, 'b, 'd, 's) framework \<Rightarrow> hyperparameters \<Rightarrow> 'b list \<Rightarrow>
   ('p, 'g, 'o) world \<Rightarrow> pyfloat list" where
  "batch_losses fw hp [] w = []"
| "batch_losses fw hp (b # bs) w =
     forward_loss fw (training w) (params w) b
       # batch_losses fw hp bs (fst (train_batches fw hp [b] (w, Finite 0)))"

text \<open>The validation losses of the epochs that were evaluated (one \<open>PrintEpoch\<close> each), the
  parameters written to \<open>model.pth\<close>, and the calls of the metrics sink, each in order.\<close>

fun val_loss_of_event :: "'p event \<Rightarrow> pyfloat list" where
  "val_loss_of_event (PrintEpoch n a v l) = [v]"
| "val_loss_of_event e = []"

definition executed_val_losses :: "'p event list \<Rightarrow> pyfloat list" where
  "executed_val_losses tr = concat (map val_loss_of_event tr)"

fun saved_of_event :: "'p event \<Rightarrow> 'p list" where
  "saved_of_event (SaveModel p) = [p]"
| "saved_of_event e = []"

definition saved_models :: "'p event list \<Rightarrow> 'p list" where
  "saved_models tr = concat (map saved_of_event tr)"

fun is_wandb_log :: "'p event \<Rightarrow> bool" where
  "is_wandb_log (WandbLog a v b l) = True"
| "is_wandb_log e = False"

definition wandb_logs :: "'p event list \<Rightarrow> 'p event list" where
  "wandb_logs tr = filter is_wandb_log tr"

text \<open>The events that depend on the logging flag: the call of the sink and the notice
  printed instead of it.\<close>

fun is_log_event :: "'p event \<Rightarrow> bool" where
  "is_log_event (WandbLog a v b l) = True"
| "is_log_event PrintSkipLog = True"
| "is_log_event e = False"

text \<open>The trace without those events, and two states that differ in those events only.\<close>

definition quiet :: "'p event list \<Rightarrow> 'p event list" where
  "quiet tr = filter (\<lambda>e. \<not> is_log_event e) tr"

definition same_but_logs :: "('p, 'g, 'o) run_state \<Rightarrow> ('p, 'g, 'o) run_state \<Rightarrow> bool" where
  "same_but_logs s t =
     (best_val_loss s = best_val_loss t \<and> patience_counter s = patience_counter t \<and>
      (objects s)\<lparr>trace := quiet (trace (objects s))\<rparr> =
      (objects t)\<lparr>trace := quiet (trace (objects t))\<rparr>)"

text \<open>The checkpoint goes with the best loss: either nothing was written and the best loss
  is still the initial infinity, or validating the stored parameters gives the best loss.\<close>

definition checkpoint_is_best ::
  "('p, 'g, 'o, 'b, 'd, 's) framework \<Rightarrow> 'b list \<Rightarrow> ('p, 'g, 'o) run_state \<Rightarrow> bool" where
  "checkpoint_is_best fw val_loader s =
     (case model_pth (objects s) of
        None \<Rightarrow> best_val_loss s = PosInf
      | Some p \<Rightarrow> fst (validate fw val_loader ((objects s)\<lparr>params := p\<rparr>)) = Inr (best_val_loss s))"

text \<open>The batches of the loaders that \<open>train_loop\<close> builds from the dataframe, and whether
  the loaders can be built.\<close>

definition run_train_loader ::
  "('p, 'g, 'o, 'b, 'd, 's) framework \<Rightarrow> hyperparameters \<Rightarrow> 'd row list \<Rightarrow> bool \<Rightarrow> nat \<Rightarrow> 'b list" where
  "run_train_loader fw hp df merge_train_val epoch =
     loader_batches fw
       \<lparr>dl_samples = dataset fw hp (fst (split_df merge_train_val df)),
        dl_batch_size = nat (hp_batch_size hp), dl_shuffle = True\<rparr> epoch"

definition run_val_loader ::
  "('p, 'g, 'o, 'b, 'd, 's) framework \<Rightarrow> hyperparameters \<Rightarrow> 'd row list \<Rightarrow> bool \<Rightarrow> 'b list" where
  "run_val_loader fw hp df merge_train_val =
     loader_batches fw
       \<lparr>dl_samples = dataset fw hp (snd (split_df merge_train_val df)),
        dl_batch_size = nat (hp_batch_size hp), dl_shuffle = False\<rparr> 0"

definition loaders_built ::
  "('p, 'g, 'o, 'b, 'd, 's) framework \<Rightarrow> hyperparameters \<Rightarrow> 'd row list \<Rightarrow> bool \<Rightarrow> bool" where
  "loaders_built fw hp df merge_train_val =
     (dataset fw hp (fst (split_df merge_train_val df)) \<noteq> [] \<and> 0 < hp_batch_size hp)"

lemmas run_defs =
  run_loop_def split_df_def mask_select_def column_def series_or_def table_df_def
  table_framework_def table_hp_def init_state_def init_world_def upt_rec loop_body_def
  train_def validate_def mean_loss_def scheduler_step_def emit_def update_best_def
  stop_or_log_def lookup_loss_def Let_def train_loop_def DataLoader_def loader_batches_def
  loader_order_def

section \<open>The partition of the rows\<close>

lemma mask_select_column: "mask_select df (column c df) = filter c df"
  unfolding mask_select_def column_def by (induction df) simp_all

lemma mask_select_or:
  "mask_select df (series_or (column c df) (column d df)) = filter (\<lambda>r. c r \<or> d r) df"
  unfolding mask_select_def column_def series_or_def by (induction df) simp_all

text \<open>
  C7.  With \<open>merge_train_val\<close> the training rows are exactly the rows whose \<open>train\<close> or
  \<open>val\<close> column is true and the validation rows exactly those whose \<open>test\<close> column is true;
  without it the training rows are those with \<open>train\<close> true and the validation rows those
  with \<open>val\<close> true.  The rows keep their order and multiplicity.
\<close>

theorem split_df_rows:
  "split_df True df = (filter (\<lambda>r. col_train r \<or> col_val r) df, filter col_test df) \<and>
   split_df False df = (filter col_train df, filter col_val df)"
  by (simp add: split_df_def mask_select_column mask_select_or)

section \<open>The results of the trainer and the validator\<close>

lemma train_result:
  "fst (train fw hp bs w) =
     mean_loss fw (snd (train_batches fw hp bs (w\<lparr>training := True\<rparr>, Finite 0))) (length bs)"
  by (simp add: train_def Let_def split: prod.splits)

lemma validate_result:
  "fst (validate fw bs w) =
     mean_loss fw (snd (validate_batches fw bs
        (w\<lparr>training := False, grad_enabled := False\<rparr>, Finite 0))) (length bs)"
  by (simp add: validate_def Let_def split: prod.splits)

section \<open>What validate leaves alone\<close>

lemma validate_batches_world:
  "fst (validate_batches fw bs (w, t)) =
     w\<lparr>trace := trace w @ replicate (length bs) (ForwardPass (training w) (grad_enabled w))\<rparr>"
proof (induction bs arbitrary: w t)
  case Nil
  show ?case by simp
next
  case (Cons b bs)
  show ?case by (simp add: Cons.IH emit_def Let_def replicate_append_same)
qed

lemma validate_world:
  "snd (validate fw bs w) =
     w\<lparr>training := False, trace := trace w @ replicate (length bs) (ForwardPass False False)\<rparr>"
proof -
  obtain w2 t2 where r:
    "validate_batches fw bs (w\<lparr>training := False, grad_enabled := False\<rparr>, Finite 0) = (w2, t2)"
    by (cases "validate_batches fw bs (w\<lparr>training := False, grad_enabled := False\<rparr>, Finite 0)")
  have "w2 = fst (validate_batches fw bs (w\<lparr>training := False, grad_enabled := False\<rparr>, Finite 0))"
    by (simp add: r)
  then have w2: "w2 = w\<lparr>training := False, grad_enabled := False,
      trace := trace w @ replicate (length bs) (ForwardPass False False)\<rparr>"
    by (simp add: validate_batches_world)
  show ?thesis
    by (simp add: validate_def Let_def r w2)
qed

text \<open>
  C9.  A call of \<open>validate\<close>, whether it returns a loss or raises, leaves the model's
  parameters, the stored gradients, the optimizer's state and learning rate, the
  scheduler's count and the checkpoint file as they were, and restores the
  gradient-tracking switch; all it does is one forward pass per batch, each in evaluation
  mode with gradient tracking off.  The one thing it writes is the model's mode flag,
  which it sets to evaluation mode and does not set back.
\<close>

theorem validate_frame:
  "params (snd (validate fw bs w)) = params w \<and>
   grads (snd (validate fw bs w)) = grads w \<and>
   opt_state (snd (validate fw bs w)) = opt_state w \<and>
   lr (snd (validate fw bs w)) = lr w \<and>
   last_epoch (snd (validate fw bs w)) = last_epoch w \<and>
   model_pth (snd (validate fw bs w)) = model_pth w \<and>
   grad_enabled (snd (validate fw bs w)) = grad_enabled w \<and>
   training (snd (validate fw bs w)) = False \<and>
   trace (snd (validate fw bs w)) = trace w @ replicate (length bs) (ForwardPass False False)"
  by (simp add: validate_world)

section \<open>The trainer, the epoch and the loop, case by case\<close>

lemma train_batches_world:
  "training (fst (train_batches fw hp bs (w, t))) = training w \<and>
   grad_enabled (fst (train_batches fw hp bs (w, t))) = grad_enabled w \<and>
   lr (fst (train_batches fw hp bs (w, t))) = lr w \<and>
   last_epoch (fst (train_batches fw hp bs (w, t))) = last_epoch w \<and>
   model_pth (fst (train_batches fw hp bs (w, t))) = model_pth w \<and>
   trace (fst (train_batches fw hp bs (w, t))) =
     trace w @ concat (replicate (length bs) [ForwardPass (training w) (grad_enabled w), OptimizerStep])"
proof (induction bs arbitrary: w t)
  case Nil
  show ?case by simp
next
  case (Cons b bs)
  show ?case by (simp add: Cons.IH emit_def Let_def split: prod.splits)
qed

lemma train_world:
  "training (snd (train fw hp bs w)) = True \<and>
   grad_enabled (snd (train fw hp bs w)) = grad_enabled w \<and>
   lr (snd (train fw hp bs w)) = scheduler_lr fw hp (Suc (last_epoch w)) (lr w) \<and>
   last_epoch (snd (train fw hp bs w)) = Suc (last_epoch w) \<and>
   model_pth (snd (train fw hp bs w)) = model_pth w \<and>
   trace (snd (train fw hp bs w)) =
     trace w @ concat (replicate (length bs) [ForwardPass True (grad_enabled w), OptimizerStep])
       @ [SchedulerStep]"
proof -
  obtain w2 t2 where r: "train_batches fw hp bs (w\<lparr>training := True\<rparr>, Finite 0) = (w2, t2)"
    by (cases "train_batches fw hp bs (w\<lparr>training := True\<rparr>, Finite 0)")
  have w2: "w2 = fst (train_batches fw hp bs (w\<lparr>training := True\<rparr>, Finite 0))"
    by (simp add: r)
  show ?thesis
    by (simp add: train_def Let_def r scheduler_step_def emit_def) (simp add: w2 train_batches_world)
qed

text \<open>The objects after the trainer and the validator of an epoch.\<close>

lemma epoch_objects_world:
  "lr (epoch_objects fw hp trl vll epoch s) =
     scheduler_lr fw hp (Suc (last_epoch (objects s))) (lr (objects s)) \<and>
   last_epoch (epoch_objects fw hp trl vll epoch s) = Suc (last_epoch (objects s)) \<and>
   model_pth (epoch_objects fw hp trl vll epoch s) = model_pth (objects s) \<and>
   params (epoch_objects fw hp trl vll epoch s) = params (snd (train fw hp (trl epoch) (objects s))) \<and>
   trace (epoch_objects fw hp trl vll epoch s) =
     trace (objects s)
       @ concat (replicate (length (trl epoch)) [ForwardPass True (grad_enabled (objects s)), OptimizerStep])
       @ [SchedulerStep] @ replicate (length vll) (ForwardPass False False)"
  by (simp add: epoch_objects_def validate_world train_world)

text \<open>The body of the loop, case by case.\<close>

lemma loop_body_train_raises:
  assumes "epoch_train_loss fw hp trl epoch s = Inl e"
  shows "loop_body fw hp trl vll lg pat epoch s =
           (Raise e, s\<lparr>objects := snd (train fw hp (trl epoch) (objects s))\<rparr>)"
proof -
  obtain r w1 where t: "train fw hp (trl epoch) (objects s) = (r, w1)"
    by (cases "train fw hp (trl epoch) (objects s)")
  have r: "r = Inl e" using assms by (simp add: epoch_train_loss_def t)
  show ?thesis by (simp add: loop_body_def t r)
qed

lemma loop_body_validate_raises:
  assumes "epoch_train_loss fw hp trl epoch s = Inr a"
      and "epoch_val_loss fw hp trl vll epoch s = Inl e"
  shows "loop_body fw hp trl vll lg pat epoch s =
           (Raise e, s\<lparr>objects := epoch_objects fw hp trl vll epoch s\<rparr>)"
proof -
  obtain r w1 where t: "train fw hp (trl epoch) (objects s) = (r, w1)"
    by (cases "train fw hp (trl epoch) (objects s)")
  obtain q w2 where v: "validate fw vll w1 = (q, w2)"
    by (cases "validate fw vll w1")
  have r: "r = Inr a" using assms(1) by (simp add: epoch_train_loss_def t)
  have q: "q = Inl e" using assms(2) by (simp add: epoch_val_loss_def t v)
  show ?thesis by (simp add: loop_body_def epoch_objects_def t v r q)
qed

lemma loop_body_evaluated:
  assumes "epoch_train_loss fw hp trl epoch s = Inr a"
      and "epoch_val_loss fw hp trl vll epoch s = Inr v"
  shows "loop_body fw hp trl vll lg pat epoch s =
           stop_or_log lg pat a v (lr (epoch_objects fw hp trl vll epoch s))
             (update_best v
                (s\<lparr>objects :=
                     emit (PrintEpoch (epoch + 1) a v (lr (epoch_objects fw hp trl vll epoch s)))
                       (emit (ReadLR (lr (epoch_objects fw hp trl vll epoch s)))
                          (epoch_objects fw hp trl vll epoch s))\<rparr>))"
proof -
  obtain r w1 where t: "train fw hp (trl epoch) (objects s) = (r, w1)"
    by (cases "train fw hp (trl epoch) (objects s)")
  obtain q w2 where v: "validate fw vll w1 = (q, w2)"
    by (cases "validate fw vll w1")
  have r: "r = Inr a" using assms(1) by (simp add: epoch_train_loss_def t)
  have q: "q = Inr v" using assms(2) by (simp add: epoch_val_loss_def t v)
  show ?thesis by (simp add: loop_body_def epoch_objects_def t v r q Let_def)
qed

text \<open>The three ways an epoch can go.\<close>

lemma loop_body_cases:
  obtains (train_raises) e where "epoch_train_loss fw hp trl epoch s = Inl e"
  | (validate_raises) a e where "epoch_train_loss fw hp trl epoch s = Inr a"
      "epoch_val_loss fw hp trl vll epoch s = Inl e"
  | (evaluated) a v where "epoch_train_loss fw hp trl epoch s = Inr a"
      "epoch_val_loss fw hp trl vll epoch s = Inr v"
  by (cases "epoch_train_loss fw hp trl epoch s"; cases "epoch_val_loss fw hp trl vll epoch s") auto

text \<open>A property that every pass through the body keeps holds at the end of the loop.\<close>

lemma epoch_loop_invariant:
  assumes step: "\<And>epoch s. P s \<Longrightarrow> P (snd (loop_body fw hp trl vll lg pat epoch s))"
      and init: "P s"
  shows "P (snd (epoch_loop fw hp trl vll lg pat es s))"
  using init
proof (induction es arbitrary: s)
  case Nil
  then show ?case by simp
next
  case (Cons epoch es)
  obtain c s' where b: "loop_body fw hp trl vll lg pat epoch s = (c, s')"
    by (cases "loop_body fw hp trl vll lg pat epoch s")
  have "P s'" using step [OF Cons.prems, of epoch] by (simp add: b)
  then show ?case using Cons.IH [of s'] by (cases c) (simp_all add: b)
qed

section \<open>Reading the trace of an epoch\<close>

lemma concat_replicate_Nil [simp]: "concat (replicate n []) = []"
  by (induction n) simp_all

lemma executed_val_losses_append [simp]:
  "executed_val_losses (xs @ ys) = executed_val_losses xs @ executed_val_losses ys"
  by (simp add: executed_val_losses_def)

lemma executed_val_losses_simps [simp]:
  "executed_val_losses [] = []"
  "executed_val_losses (e # es) = val_loss_of_event e @ executed_val_losses es"
  "executed_val_losses (concat (replicate n [ForwardPass t g, OptimizerStep])) = []"
  "executed_val_losses (replicate n (ForwardPass t g)) = []"
  by (simp_all add: executed_val_losses_def map_concat)

lemma saved_models_append [simp]:
  "saved_models (xs @ ys) = saved_models xs @ saved_models ys"
  by (simp add: saved_models_def)

lemma saved_models_simps [simp]:
  "saved_models [] = []"
  "saved_models (e # es) = saved_of_event e @ saved_models es"
  "saved_models (concat (replicate n [ForwardPass t g, OptimizerStep])) = []"
  "saved_models (replicate n (ForwardPass t g)) = []"
  by (simp_all add: saved_models_def map_concat)

lemma wandb_logs_append [simp]:
  "wandb_logs (xs @ ys) = wandb_logs xs @ wandb_logs ys"
  by (simp add: wandb_logs_def)

lemma wandb_logs_simps [simp]:
  "wandb_logs [] = []"
  "wandb_logs (e # es) = (if is_wandb_log e then e # wandb_logs es else wandb_logs es)"
  "wandb_logs (concat (replicate n [ForwardPass t g, OptimizerStep])) = []"
  "wandb_logs (replicate n (ForwardPass t g)) = []"
  by (simp_all add: wandb_logs_def filter_concat)

text \<open>The state after an epoch in which both the trainer and the validator returned.\<close>

lemma loop_body_evaluated_state:
  assumes "epoch_train_loss fw hp trl epoch s = Inr a"
      and "epoch_val_loss fw hp trl vll epoch s = Inr v"
  shows "loop_body fw hp trl vll lg pat epoch s =
    (let w = epoch_objects fw hp trl vll epoch s;
         improved = flt v (best_val_loss s);
         best = (if improved then v else best_val_loss s);
         counter = (if improved then 0 else patience_counter s + 1)
     in (if pat \<le> counter then Break else Next,
         \<lparr>objects = w
            \<lparr>model_pth := (if improved then Some (params w) else model_pth w),
             trace := trace w @ [ReadLR (lr w), PrintEpoch (epoch + 1) a v (lr w)]
               @ (if improved then [SaveModel (params w)] else [])
               @ [if pat \<le> counter then PrintEarlyStop pat
                  else if lg then WandbLog a v best (lr w) else PrintSkipLog]\<rparr>,
          best_val_loss = best, patience_counter = counter\<rparr>))"
  unfolding loop_body_evaluated [OF assms]
  by (cases s) (simp add: update_best_def stop_or_log_def emit_def Let_def)

section \<open>The patience counter\<close>

text \<open>A property kept by every pass that goes on to the next epoch holds at the end of a loop
  that used up its epochs.\<close>

lemma epoch_loop_next_invariant:
  assumes step: "\<And>epoch s. P s \<Longrightarrow> fst (loop_body fw hp trl vll lg pat epoch s) = Next \<Longrightarrow>
                   P (snd (loop_body fw hp trl vll lg pat epoch s))"
      and init: "P s"
      and fin: "fst (epoch_loop fw hp trl vll lg pat es s) = Next"
  shows "P (snd (epoch_loop fw hp trl vll lg pat es s))"
  using init fin
proof (induction es arbitrary: s)
  case Nil
  then show ?case by simp
next
  case (Cons epoch es)
  obtain c s' where b: "loop_body fw hp trl vll lg pat epoch s = (c, s')"
    by (cases "loop_body fw hp trl vll lg pat epoch s")
  have c: "c = Next" using Cons.prems(2) by (cases c) (simp_all add: b)
  have "P s'" using step [OF Cons.prems(1), of epoch] by (simp add: b c)
  then show ?case using Cons.IH [of s'] Cons.prems(2) by (simp add: b c)
qed

text \<open>When the loop ends with a break or an exception, its last pass ended that way, and
  it started in a state that has every property the earlier passes keep.\<close>

lemma epoch_loop_stop_pass:
  assumes step: "\<And>epoch s. P s \<Longrightarrow> fst (loop_body fw hp trl vll lg pat epoch s) = Next \<Longrightarrow>
                   P (snd (loop_body fw hp trl vll lg pat epoch s))"
      and init: "P s"
      and stop: "fst (epoch_loop fw hp trl vll lg pat es s) \<noteq> Next"
  shows "\<exists>epoch s0. P s0 \<and> epoch \<in> set es \<and>
           loop_body fw hp trl vll lg pat epoch s0 = epoch_loop fw hp trl vll lg pat es s"
  using init stop
proof (induction es arbitrary: s)
  case Nil
  then show ?case by simp
next
  case (Cons epoch es)
  obtain c s' where b: "loop_body fw hp trl vll lg pat epoch s = (c, s')"
    by (cases "loop_body fw hp trl vll lg pat epoch s")
  show ?case
  proof (cases "c = Next")
    case True
    have "P s'" using step [OF Cons.prems(1), of epoch] by (simp add: b True)
    moreover have "fst (epoch_loop fw hp trl vll lg pat es s') \<noteq> Next"
      using Cons.prems(2) by (simp add: b True)
    ultimately obtain epoch' s0 where "P s0" "epoch' \<in> set es"
      "loop_body fw hp trl vll lg pat epoch' s0 = epoch_loop fw hp trl vll lg pat es s'"
      using Cons.IH by blast
    then show ?thesis by (auto simp: b True)
  next
    case False
    then have "epoch_loop fw hp trl vll lg pat (epoch # es) s = (c, s')"
      by (cases c) (simp_all add: b)
    then show ?thesis using Cons.prems(1) b by (metis list.set_intros(1))
  qed
qed

text \<open>The run is the loop over the loaders built from the dataframe, or the ValueError
  of a loader that cannot be built.\<close>

lemma run_loop_unfold:
  "run_loop fw hp df m lg pat =
     (if loaders_built fw hp df m
      then epoch_loop fw hp (run_train_loader fw hp df m) (run_val_loader fw hp df m) lg pat
             [0 ..< nat (hp_epochs hp)] (init_state fw hp)
      else (Raise ValueError, init_state fw hp))"
  by (auto simp add: run_loop_def DataLoader_def loaders_built_def run_train_loader_def [abs_def]
      run_val_loader_def Let_def split: prod.splits)

lemma run_loop_property:
  assumes "Q (Raise ValueError, init_state fw hp)"
      and "Q (epoch_loop fw hp (run_train_loader fw hp df m) (run_val_loader fw hp df m) lg pat
             [0 ..< nat (hp_epochs hp)] (init_state fw hp))"
  shows "Q (run_loop fw hp df m lg pat)"
  using assms by (simp add: run_loop_unfold)

text \<open>The counter after an epoch, and how the epoch ends.\<close>

lemma loop_body_counter:
  assumes "epoch_train_loss fw hp trl epoch s = Inr a"
      and "epoch_val_loss fw hp trl vll epoch s = Inr v"
  shows "patience_counter (snd (loop_body fw hp trl vll lg pat epoch s)) =
           (if flt v (best_val_loss s) then 0 else patience_counter s + 1) \<and>
         best_val_loss (snd (loop_body fw hp trl vll lg pat epoch s)) =
           (if flt v (best_val_loss s) then v else best_val_loss s) \<and>
         fst (loop_body fw hp trl vll lg pat epoch s) =
           (if pat \<le> (if flt v (best_val_loss s) then 0 else patience_counter s + 1)
            then Break else Next)"
  by (simp add: loop_body_evaluated_state [OF assms] Let_def)

lemma loop_body_Next_counter:
  assumes "fst (loop_body fw hp trl vll lg pat epoch s) = Next"
  shows "patience_counter (snd (loop_body fw hp trl vll lg pat epoch s)) < pat"
proof (cases rule: loop_body_cases [where fw = fw and hp = hp and trl = trl and epoch = epoch and s = s and vll = vll])
  case (train_raises e)
  then show ?thesis using assms by (simp add: loop_body_train_raises)
next
  case (validate_raises a e)
  then show ?thesis using assms by (simp add: loop_body_validate_raises)
next
  case (evaluated a v)
  then show ?thesis using assms loop_body_counter [OF evaluated, of lg pat]
    by (simp split: if_splits)
qed

lemma loop_body_Break_counter:
  assumes "fst (loop_body fw hp trl vll lg pat epoch s) = Break"
      and "patience_counter s < pat" and "1 \<le> pat"
  shows "patience_counter (snd (loop_body fw hp trl vll lg pat epoch s)) = pat"
proof (cases rule: loop_body_cases [where fw = fw and hp = hp and trl = trl and epoch = epoch and s = s and vll = vll])
  case (train_raises e)
  then show ?thesis using assms by (simp add: loop_body_train_raises)
next
  case (validate_raises a e)
  then show ?thesis using assms by (simp add: loop_body_validate_raises)
next
  case (evaluated a v)
  then show ?thesis using assms loop_body_counter [OF evaluated, of lg pat]
    by (simp split: if_splits)
qed

lemma epoch_loop_counter:
  assumes "patience_counter s < pat" and "1 \<le> pat"
  shows "(fst (epoch_loop fw hp trl vll lg pat es s) = Break \<longrightarrow>
            patience_counter (snd (epoch_loop fw hp trl vll lg pat es s)) = pat) \<and>
         (fst (epoch_loop fw hp trl vll lg pat es s) = Next \<longrightarrow>
            patience_counter (snd (epoch_loop fw hp trl vll lg pat es s)) < pat)"
proof (intro conjI impI)
  assume brk: "fst (epoch_loop fw hp trl vll lg pat es s) = Break"
  have "\<exists>epoch s0. patience_counter s0 < pat \<and> epoch \<in> set es \<and>
          loop_body fw hp trl vll lg pat epoch s0 = epoch_loop fw hp trl vll lg pat es s"
    by (rule epoch_loop_stop_pass [where P = "\<lambda>s. patience_counter s < pat"])
       (simp_all add: loop_body_Next_counter assms(1) brk)
  then obtain epoch s0 where s0: "patience_counter s0 < pat"
    and b: "loop_body fw hp trl vll lg pat epoch s0 = epoch_loop fw hp trl vll lg pat es s"
    by blast
  show "patience_counter (snd (epoch_loop fw hp trl vll lg pat es s)) = pat"
    using loop_body_Break_counter [of fw hp trl vll lg pat epoch s0] s0 assms(2) brk
    by (simp add: b)
next
  assume nxt: "fst (epoch_loop fw hp trl vll lg pat es s) = Next"
  show "patience_counter (snd (epoch_loop fw hp trl vll lg pat es s)) < pat"
    by (rule epoch_loop_next_invariant [where P = "\<lambda>s. patience_counter s < pat"])
       (simp_all add: loop_body_Next_counter assms(1) nxt)
qed

text \<open>
  C2.  The patience counter starts at 0.  In an epoch that is evaluated it becomes 0 when
  the validation loss is strictly below the best loss so far and grows by exactly 1
  otherwise, and the loop breaks in that epoch exactly when the counter has reached the
  patience value (and goes on exactly when it is still below).  For a patience of at least
  1 a run that stops early ends with the counter equal to the patience, and a run that uses
  up its epoch budget ends with the counter below it.  With 5 epochs, patience 2 and
  validation losses 0.5, 0.6, 0.7 the run breaks in the third epoch and returns 0.5.
\<close>

theorem patience_policy:
  "patience_counter (init_state fw hp) = 0 \<and>
   (epoch_train_loss fw hp trl epoch s = Inr a \<and> epoch_val_loss fw hp trl vll epoch s = Inr v \<longrightarrow>
      patience_counter (snd (loop_body fw hp trl vll lg pat epoch s)) =
        (if flt v (best_val_loss s) then 0 else patience_counter s + 1) \<and>
      (fst (loop_body fw hp trl vll lg pat epoch s) = Break \<longleftrightarrow>
         pat \<le> patience_counter (snd (loop_body fw hp trl vll lg pat epoch s))) \<and>
      (fst (loop_body fw hp trl vll lg pat epoch s) = Next \<longleftrightarrow>
         patience_counter (snd (loop_body fw hp trl vll lg pat epoch s)) < pat)) \<and>
   (1 \<le> pat \<longrightarrow>
      (fst (run_loop fw hp df m lg pat) = Break \<longrightarrow>
         patience_counter (snd (run_loop fw hp df m lg pat)) = pat) \<and>
      (fst (run_loop fw hp df m lg pat) = Next \<longrightarrow>
         patience_counter (snd (run_loop fw hp df m lg pat)) < pat)) \<and>
   fst (run_loop (table_framework [Finite (1/2), Finite (3/5), Finite (7/10)]) (table_hp 5)
          table_df False True 2) = Break \<and>
   executed_val_losses (trace (objects (snd
      (run_loop (table_framework [Finite (1/2), Finite (3/5), Finite (7/10)]) (table_hp 5)
          table_df False True 2)))) = [Finite (1/2), Finite (3/5), Finite (7/10)] \<and>
   train_loop (table_framework [Finite (1/2), Finite (3/5), Finite (7/10)]) (table_hp 5)
          table_df False True 2 = Inr (Finite (1/2))"
proof -
  have A: "patience_counter (init_state fw hp) = 0" by (simp add: init_state_def)
  have B: "epoch_train_loss fw hp trl epoch s = Inr a \<and> epoch_val_loss fw hp trl vll epoch s = Inr v \<longrightarrow>
      patience_counter (snd (loop_body fw hp trl vll lg pat epoch s)) =
        (if flt v (best_val_loss s) then 0 else patience_counter s + 1) \<and>
      (fst (loop_body fw hp trl vll lg pat epoch s) = Break \<longleftrightarrow>
         pat \<le> patience_counter (snd (loop_body fw hp trl vll lg pat epoch s))) \<and>
      (fst (loop_body fw hp trl vll lg pat epoch s) = Next \<longleftrightarrow>
         patience_counter (snd (loop_body fw hp trl vll lg pat epoch s)) < pat)"
  proof
    assume h: "epoch_train_loss fw hp trl epoch s = Inr a \<and> epoch_val_loss fw hp trl vll epoch s = Inr v"
    note c = loop_body_counter [OF conjunct1 [OF h] conjunct2 [OF h], of lg pat]
    show "patience_counter (snd (loop_body fw hp trl vll lg pat epoch s)) =
        (if flt v (best_val_loss s) then 0 else patience_counter s + 1) \<and>
      (fst (loop_body fw hp trl vll lg pat epoch s) = Break \<longleftrightarrow>
         pat \<le> patience_counter (snd (loop_body fw hp trl vll lg pat epoch s))) \<and>
      (fst (loop_body fw hp trl vll lg pat epoch s) = Next \<longleftrightarrow>
         patience_counter (snd (loop_body fw hp trl vll lg pat epoch s)) < pat)"
      using c by auto
  qed
  have C: "1 \<le> pat \<longrightarrow>
      (fst (run_loop fw hp df m lg pat) = Break \<longrightarrow>
         patience_counter (snd (run_loop fw hp df m lg pat)) = pat) \<and>
      (fst (run_loop fw hp df m lg pat) = Next \<longrightarrow>
         patience_counter (snd (run_loop fw hp df m lg pat)) < pat)"
  proof
    assume p: "1 \<le> pat"
    have i: "patience_counter (init_state fw hp) < pat" using p by (simp add: init_state_def)
    show "(fst (run_loop fw hp df m lg pat) = Break \<longrightarrow>
         patience_counter (snd (run_loop fw hp df m lg pat)) = pat) \<and>
      (fst (run_loop fw hp df m lg pat) = Next \<longrightarrow>
         patience_counter (snd (run_loop fw hp df m lg pat)) < pat)"
      by (rule run_loop_property [where Q = "\<lambda>r. (fst r = Break \<longrightarrow> patience_counter (snd r) = pat) \<and>
            (fst r = Next \<longrightarrow> patience_counter (snd r) < pat)"])
         (simp, rule epoch_loop_counter [OF i p])
  qed
  have D: "fst (run_loop (table_framework [Finite (1/2), Finite (3/5), Finite (7/10)]) (table_hp 5)
          table_df False True 2) = Break"
    by (simp add: run_defs)
  have E: "executed_val_losses (trace (objects (snd
      (run_loop (table_framework [Finite (1/2), Finite (3/5), Finite (7/10)]) (table_hp 5)
          table_df False True 2)))) = [Finite (1/2), Finite (3/5), Finite (7/10)]"
    by (simp add: run_defs)
  have F: "train_loop (table_framework [Finite (1/2), Finite (3/5), Finite (7/10)]) (table_hp 5)
          table_df False True 2 = Inr (Finite (1/2))"
    by (simp add: run_defs)
  show ?thesis by (intro conjI A B C D E F)
qed

theorem patience_policy_witness:
  "epoch_train_loss (table_framework [Finite (1/2), Finite (3/5), Finite (7/10)]) (table_hp 5)
      (\<lambda>epoch. [()]) 0
      (init_state (table_framework [Finite (1/2), Finite (3/5), Finite (7/10)]) (table_hp 5))
     = Inr (Finite 1) \<and>
   epoch_val_loss (table_framework [Finite (1/2), Finite (3/5), Finite (7/10)]) (table_hp 5)
      (\<lambda>epoch. [()]) [()] 0
      (init_state (table_framework [Finite (1/2), Finite (3/5), Finite (7/10)]) (table_hp 5))
     = Inr (Finite (1/2)) \<and>
   (1::int) \<le> 2 \<and>
   fst (loop_body (table_framework [Finite (1/2), Finite (3/5), Finite (7/10)]) (table_hp 5)
      (\<lambda>epoch. [()]) [()] True 2 0
      (init_state (table_framework [Finite (1/2), Finite (3/5), Finite (7/10)]) (table_hp 5)))
     = Next \<and>
   patience_counter (snd (loop_body (table_framework [Finite (1/2), Finite (3/5), Finite (7/10)])
      (table_hp 5) (\<lambda>epoch. [()]) [()] True 2 0
      (init_state (table_framework [Finite (1/2), Finite (3/5), Finite (7/10)]) (table_hp 5)))) = 0 \<and>
   patience_counter (snd (run_loop (table_framework [Finite (1/2), Finite (3/5), Finite (7/10)])
      (table_hp 5) table_df False True 2)) = 2"
  using patience_policy [where fw = "table_framework [Finite (1/2), Finite (3/5), Finite (7/10)]"
      and hp = "table_hp 5" and trl = "\<lambda>epoch. [()]" and vll = "[()]" and epoch = 0
      and s = "init_state (table_framework [Finite (1/2), Finite (3/5), Finite (7/10)]) (table_hp 5)"
      and a = "Finite 1" and v = "Finite (1/2)" and lg = True and pat = 2
      and df = table_df and m = False]
  by (simp add: run_defs epoch_train_loss_def epoch_val_loss_def)

section \<open>The value returned\<close>

lemma flt_irrefl: "\<not> flt v v"
  by (cases v) simp_all

lemma flt_trans: "flt a b \<Longrightarrow> flt b c \<Longrightarrow> flt a c"
  by (cases a; cases b; cases c) simp_all


text \<open>The best loss is a least one among the validation losses seen, or still the initial
  infinity; every pass through the body keeps this.\<close>

lemma loop_body_best:
  assumes "\<forall>u \<in> set (executed_val_losses (trace (objects s))). \<not> flt u (best_val_loss s)"
      and "best_val_loss s = PosInf \<or> best_val_loss s \<in> set (executed_val_losses (trace (objects s)))"
  shows "(\<forall>u \<in> set (executed_val_losses (trace (objects (snd (loop_body fw hp trl vll lg pat epoch s))))).
            \<not> flt u (best_val_loss (snd (loop_body fw hp trl vll lg pat epoch s)))) \<and>
         (best_val_loss (snd (loop_body fw hp trl vll lg pat epoch s)) = PosInf \<or>
          best_val_loss (snd (loop_body fw hp trl vll lg pat epoch s))
            \<in> set (executed_val_losses (trace (objects (snd (loop_body fw hp trl vll lg pat epoch s))))))"
proof (cases rule: loop_body_cases [where fw = fw and hp = hp and trl = trl and epoch = epoch and s = s and vll = vll])
  case (train_raises e)
  then show ?thesis using assms by (simp add: loop_body_train_raises train_world)
next
  case (validate_raises a e)
  then show ?thesis using assms by (simp add: loop_body_validate_raises epoch_objects_world)
next
  case (evaluated a v)
  show ?thesis
  proof (cases "flt v (best_val_loss s)")
    case True
    have "\<not> flt u v" if "u \<in> set (executed_val_losses (trace (objects s)))" for u
      using assms(1) that True flt_trans by blast
    then show ?thesis
      by (simp add: loop_body_evaluated_state [OF evaluated] Let_def epoch_objects_world True flt_irrefl)
  next
    case False
    then show ?thesis using assms
      by (auto simp add: loop_body_evaluated_state [OF evaluated] Let_def epoch_objects_world)
  qed
qed

lemma epoch_loop_best:
  assumes "\<forall>u \<in> set (executed_val_losses (trace (objects (s :: ('p, 'g, 'o) run_state)))). \<not> flt u (best_val_loss s)"
      and "best_val_loss s = PosInf \<or> best_val_loss s \<in> set (executed_val_losses (trace (objects s)))"
  shows "(\<forall>u \<in> set (executed_val_losses (trace (objects (snd (epoch_loop fw hp trl vll lg pat es s))))).
            \<not> flt u (best_val_loss (snd (epoch_loop fw hp trl vll lg pat es s)))) \<and>
         (best_val_loss (snd (epoch_loop fw hp trl vll lg pat es s)) = PosInf \<or>
          best_val_loss (snd (epoch_loop fw hp trl vll lg pat es s))
            \<in> set (executed_val_losses (trace (objects (snd (epoch_loop fw hp trl vll lg pat es s))))))"
proof -
  let ?P = "\<lambda>s :: ('p, 'g, 'o) run_state. (\<forall>u \<in> set (executed_val_losses (trace (objects s))). \<not> flt u (best_val_loss s)) \<and>
        (best_val_loss s = PosInf \<or> best_val_loss s \<in> set (executed_val_losses (trace (objects s))))"
  have "?P (snd (epoch_loop fw hp trl vll lg pat es s))"
  proof (rule epoch_loop_invariant [where P = ?P])
    fix epoch s
    assume "?P s"
    then show "?P (snd (loop_body fw hp trl vll lg pat epoch s))"
      using loop_body_best [of s fw hp trl vll lg pat epoch] by blast
  next
    show "?P s" using assms by blast
  qed
  then show ?thesis .
qed

lemma run_loop_best:
  "(\<forall>u \<in> set (executed_val_losses (trace (objects (snd (run_loop fw hp df m lg pat))))).
      \<not> flt u (best_val_loss (snd (run_loop fw hp df m lg pat)))) \<and>
   (best_val_loss (snd (run_loop fw hp df m lg pat)) = PosInf \<or>
    best_val_loss (snd (run_loop fw hp df m lg pat))
      \<in> set (executed_val_losses (trace (objects (snd (run_loop fw hp df m lg pat))))))"
proof (rule run_loop_property [where Q = "\<lambda>r.
      (\<forall>u \<in> set (executed_val_losses (trace (objects (snd r)))). \<not> flt u (best_val_loss (snd r))) \<and>
      (best_val_loss (snd r) = PosInf \<or>
       best_val_loss (snd r) \<in> set (executed_val_losses (trace (objects (snd r)))))"])
  show "(\<forall>u \<in> set (executed_val_losses (trace (objects (snd (Raise ValueError, init_state fw hp))))).
           \<not> flt u (best_val_loss (snd (Raise ValueError, init_state fw hp)))) \<and>
        (best_val_loss (snd (Raise ValueError, init_state fw hp)) = PosInf \<or>
         best_val_loss (snd (Raise ValueError, init_state fw hp))
           \<in> set (executed_val_losses (trace (objects (snd (Raise ValueError, init_state fw hp))))))"
    by (simp add: init_state_def init_world_def)
next
  let ?r = "epoch_loop fw hp (run_train_loader fw hp df m) (run_val_loader fw hp df m) lg pat
              [0 ..< nat (hp_epochs hp)] (init_state fw hp)"
  show "(\<forall>u \<in> set (executed_val_losses (trace (objects (snd ?r)))). \<not> flt u (best_val_loss (snd ?r))) \<and>
        (best_val_loss (snd ?r) = PosInf \<or>
         best_val_loss (snd ?r) \<in> set (executed_val_losses (trace (objects (snd ?r)))))"
    by (rule epoch_loop_best) (simp_all add: init_state_def init_world_def)
qed










section \<open>The checkpoint\<close>

text \<open>The loss that the validator returns depends on the parameters only.\<close>

lemma validate_batches_total:
  "snd (validate_batches fw bs (w, t)) =
     foldl (float_add fw) t (map (forward_loss fw (training w) (params w)) bs)"
proof (induction bs arbitrary: w t)
  case Nil
  show ?case by simp
next
  case (Cons b bs)
  show ?case by (simp add: Cons.IH emit_def Let_def)
qed

lemma validate_value:
  "fst (validate fw bs w) =
     mean_loss fw (foldl (float_add fw) (Finite 0) (map (forward_loss fw False (params w)) bs))
       (length bs)"
  by (simp add: validate_result validate_batches_total)

lemma checkpoint_is_best_alt:
  "checkpoint_is_best fw vll s =
     (case model_pth (objects s) of
        None \<Rightarrow> best_val_loss s = PosInf
      | Some p \<Rightarrow> mean_loss fw (foldl (float_add fw) (Finite 0) (map (forward_loss fw False p) vll))
                   (length vll) = Inr (best_val_loss s))"
  by (simp add: checkpoint_is_best_def validate_value split: option.splits)

lemma loop_body_checkpoint_is_best:
  assumes "checkpoint_is_best fw vll s"
  shows "checkpoint_is_best fw vll (snd (loop_body fw hp trl vll lg pat epoch s))"
proof (cases rule: loop_body_cases [where fw = fw and hp = hp and trl = trl and epoch = epoch and s = s and vll = vll])
  case (train_raises e)
  then show ?thesis using assms
    by (simp add: loop_body_train_raises checkpoint_is_best_alt train_world split: option.splits)
next
  case (validate_raises a e)
  then show ?thesis using assms
    by (simp add: loop_body_validate_raises checkpoint_is_best_alt epoch_objects_world split: option.splits)
next
  case (evaluated a v)
  have v: "mean_loss fw (foldl (float_add fw) (Finite 0)
             (map (forward_loss fw False (params (epoch_objects fw hp trl vll epoch s))) vll))
             (length vll) = Inr v"
    using evaluated(2) by (simp add: epoch_val_loss_def validate_value epoch_objects_world)
  show ?thesis using assms v
    by (simp add: loop_body_evaluated_state [OF evaluated] Let_def checkpoint_is_best_alt
        epoch_objects_world split: option.splits)
qed

lemma run_loop_checkpoint_is_best:
  "checkpoint_is_best fw (run_val_loader fw hp df m) (snd (run_loop fw hp df m lg pat))"
proof (rule run_loop_property [where Q = "\<lambda>r. checkpoint_is_best fw (run_val_loader fw hp df m) (snd r)"])
  have i: "checkpoint_is_best fw (run_val_loader fw hp df m) (init_state fw hp)"
    by (simp add: checkpoint_is_best_def init_state_def init_world_def)
  then show "checkpoint_is_best fw (run_val_loader fw hp df m) (snd (Raise ValueError, init_state fw hp))"
    by simp
  show "checkpoint_is_best fw (run_val_loader fw hp df m)
          (snd (epoch_loop fw hp (run_train_loader fw hp df m) (run_val_loader fw hp df m) lg pat
                  [0 ..< nat (hp_epochs hp)] (init_state fw hp)))"
    by (rule epoch_loop_invariant [where P = "checkpoint_is_best fw (run_val_loader fw hp df m)"])
       (simp_all add: loop_body_checkpoint_is_best i)
qed

text \<open>What an epoch writes.\<close>

lemma loop_body_saves:
  assumes "epoch_train_loss fw hp trl epoch s = Inr a"
      and "epoch_val_loss fw hp trl vll epoch s = Inr v"
  shows "saved_models (trace (objects (snd (loop_body fw hp trl vll lg pat epoch s)))) =
           saved_models (trace (objects s)) @
           (if flt v (best_val_loss s) then [params (epoch_objects fw hp trl vll epoch s)] else []) \<and>
         model_pth (objects (snd (loop_body fw hp trl vll lg pat epoch s))) =
           (if flt v (best_val_loss s) then Some (params (epoch_objects fw hp trl vll epoch s))
            else model_pth (objects s))"
  by (simp add: loop_body_evaluated_state [OF assms] Let_def epoch_objects_world)

lemma loop_body_raise_saves:
  assumes "fst (loop_body fw hp trl vll lg pat epoch s) = Raise e"
  shows "saved_models (trace (objects (snd (loop_body fw hp trl vll lg pat epoch s)))) =
           saved_models (trace (objects s)) \<and>
         model_pth (objects (snd (loop_body fw hp trl vll lg pat epoch s))) = model_pth (objects s)"
proof (cases rule: loop_body_cases [where fw = fw and hp = hp and trl = trl and epoch = epoch and s = s and vll = vll])
  case (train_raises e)
  then show ?thesis by (simp add: loop_body_train_raises train_world)
next
  case (validate_raises a e)
  then show ?thesis by (simp add: loop_body_validate_raises epoch_objects_world)
next
  case (evaluated a v)
  then show ?thesis using assms
    by (simp add: loop_body_evaluated_state [OF evaluated] Let_def split: if_splits)
qed

text \<open>
  C1.  In an epoch that is evaluated the checkpoint file is written, once and with the
  parameters as they are after that epoch's training, if and only if the validation loss
  is strictly below the best loss so far; in particular nothing is written on a tie.  An
  epoch that raises writes nothing.  Before the first epoch and after every epoch the
  checkpoint goes with the best loss (validating the stored parameters gives the best loss;
  nothing is stored while the best loss is still the initial infinity), and at the end of
  the run no evaluated epoch had a validation loss strictly below the best loss.
\<close>

theorem checkpoint_policy:
  "(epoch_train_loss fw hp trl epoch s = Inr a \<and> epoch_val_loss fw hp trl vll epoch s = Inr v \<longrightarrow>
      saved_models (trace (objects (snd (loop_body fw hp trl vll lg pat epoch s)))) =
        saved_models (trace (objects s)) @
        (if flt v (best_val_loss s) then [params (epoch_objects fw hp trl vll epoch s)] else []) \<and>
      model_pth (objects (snd (loop_body fw hp trl vll lg pat epoch s))) =
        (if flt v (best_val_loss s) then Some (params (epoch_objects fw hp trl vll epoch s))
         else model_pth (objects s)) \<and>
      (v = best_val_loss s \<longrightarrow>
         saved_models (trace (objects (snd (loop_body fw hp trl vll lg pat epoch s)))) =
           saved_models (trace (objects s)) \<and>
         model_pth (objects (snd (loop_body fw hp trl vll lg pat epoch s))) = model_pth (objects s))) \<and>
   (fst (loop_body fw hp trl vll lg pat epoch s) = Raise e \<longrightarrow>
      saved_models (trace (objects (snd (loop_body fw hp trl vll lg pat epoch s)))) =
        saved_models (trace (objects s)) \<and>
      model_pth (objects (snd (loop_body fw hp trl vll lg pat epoch s))) = model_pth (objects s)) \<and>
   checkpoint_is_best fw vll (init_state fw hp) \<and>
   (checkpoint_is_best fw vll s \<longrightarrow>
      checkpoint_is_best fw vll (snd (loop_body fw hp trl vll lg pat epoch s))) \<and>
   checkpoint_is_best fw (run_val_loader fw hp df m) (snd (run_loop fw hp df m lg pat)) \<and>
   (\<forall>u \<in> set (executed_val_losses (trace (objects (snd (run_loop fw hp df m lg pat))))).
      \<not> flt u (best_val_loss (snd (run_loop fw hp df m lg pat))))"
proof -
  have A: "epoch_train_loss fw hp trl epoch s = Inr a \<and> epoch_val_loss fw hp trl vll epoch s = Inr v \<longrightarrow>
      saved_models (trace (objects (snd (loop_body fw hp trl vll lg pat epoch s)))) =
        saved_models (trace (objects s)) @
        (if flt v (best_val_loss s) then [params (epoch_objects fw hp trl vll epoch s)] else []) \<and>
      model_pth (objects (snd (loop_body fw hp trl vll lg pat epoch s))) =
        (if flt v (best_val_loss s) then Some (params (epoch_objects fw hp trl vll epoch s))
         else model_pth (objects s)) \<and>
      (v = best_val_loss s \<longrightarrow>
         saved_models (trace (objects (snd (loop_body fw hp trl vll lg pat epoch s)))) =
           saved_models (trace (objects s)) \<and>
         model_pth (objects (snd (loop_body fw hp trl vll lg pat epoch s))) = model_pth (objects s))"
  proof
    assume h: "epoch_train_loss fw hp trl epoch s = Inr a \<and> epoch_val_loss fw hp trl vll epoch s = Inr v"
    note c = loop_body_saves [OF conjunct1 [OF h] conjunct2 [OF h], of lg pat]
    show "saved_models (trace (objects (snd (loop_body fw hp trl vll lg pat epoch s)))) =
        saved_models (trace (objects s)) @
        (if flt v (best_val_loss s) then [params (epoch_objects fw hp trl vll epoch s)] else []) \<and>
      model_pth (objects (snd (loop_body fw hp trl vll lg pat epoch s))) =
        (if flt v (best_val_loss s) then Some (params (epoch_objects fw hp trl vll epoch s))
         else model_pth (objects s)) \<and>
      (v = best_val_loss s \<longrightarrow>
         saved_models (trace (objects (snd (loop_body fw hp trl vll lg pat epoch s)))) =
           saved_models (trace (objects s)) \<and>
         model_pth (objects (snd (loop_body fw hp trl vll lg pat epoch s))) = model_pth (objects s))"
      using c by (simp add: flt_irrefl)
  qed
  have B: "fst (loop_body fw hp trl vll lg pat epoch s) = Raise e \<longrightarrow>
      saved_models (trace (objects (snd (loop_body fw hp trl vll lg pat epoch s)))) =
        saved_models (trace (objects s)) \<and>
      model_pth (objects (snd (loop_body fw hp trl vll lg pat epoch s))) = model_pth (objects s)"
    using loop_body_raise_saves by blast
  have C: "checkpoint_is_best fw vll (init_state fw hp)"
    by (simp add: checkpoint_is_best_def init_state_def init_world_def)
  have D: "checkpoint_is_best fw vll s \<longrightarrow>
      checkpoint_is_best fw vll (snd (loop_body fw hp trl vll lg pat epoch s))"
    using loop_body_checkpoint_is_best by blast
  have E: "checkpoint_is_best fw (run_val_loader fw hp df m) (snd (run_loop fw hp df m lg pat))"
    by (rule run_loop_checkpoint_is_best)
  have F: "\<forall>u \<in> set (executed_val_losses (trace (objects (snd (run_loop fw hp df m lg pat))))).
      \<not> flt u (best_val_loss (snd (run_loop fw hp df m lg pat)))"
    using run_loop_best [of fw hp df m lg pat] by blast
  show ?thesis by (intro conjI A B C D E F)
qed

theorem checkpoint_policy_witness:
  "epoch_train_loss (table_framework [Finite (1/2), Finite (1/2)]) (table_hp 5) (\<lambda>epoch. [()]) 1
      (snd (loop_body (table_framework [Finite (1/2), Finite (1/2)]) (table_hp 5) (\<lambda>epoch. [()]) [()] True 2 0 (init_state (table_framework [Finite (1/2), Finite (1/2)]) (table_hp 5)))) = Inr (Finite 1) \<and>
   epoch_val_loss (table_framework [Finite (1/2), Finite (1/2)]) (table_hp 5) (\<lambda>epoch. [()]) [()] 1
      (snd (loop_body (table_framework [Finite (1/2), Finite (1/2)]) (table_hp 5) (\<lambda>epoch. [()]) [()] True 2 0 (init_state (table_framework [Finite (1/2), Finite (1/2)]) (table_hp 5)))) = Inr (Finite (1/2)) \<and>
   Finite (1/2) = best_val_loss (snd (loop_body (table_framework [Finite (1/2), Finite (1/2)]) (table_hp 5) (\<lambda>epoch. [()]) [()] True 2 0 (init_state (table_framework [Finite (1/2), Finite (1/2)]) (table_hp 5)))) \<and>
   checkpoint_is_best (table_framework [Finite (1/2), Finite (1/2)]) [()] (snd (loop_body (table_framework [Finite (1/2), Finite (1/2)]) (table_hp 5) (\<lambda>epoch. [()]) [()] True 2 0 (init_state (table_framework [Finite (1/2), Finite (1/2)]) (table_hp 5)))) \<and>
   saved_models (trace (objects (snd (loop_body (table_framework [Finite (1/2), Finite (1/2)]) (table_hp 5) (\<lambda>epoch. [()]) [()] True 2 0 (init_state (table_framework [Finite (1/2), Finite (1/2)]) (table_hp 5)))))) = [1] \<and>
   saved_models (trace (objects (snd (loop_body (table_framework [Finite (1/2), Finite (1/2)]) (table_hp 5) (\<lambda>epoch. [()]) [()] True 2 1 (snd (loop_body (table_framework [Finite (1/2), Finite (1/2)]) (table_hp 5) (\<lambda>epoch. [()]) [()] True 2 0 (init_state (table_framework [Finite (1/2), Finite (1/2)]) (table_hp 5)))))))) = [1] \<and>
   model_pth (objects (snd (loop_body (table_framework [Finite (1/2), Finite (1/2)]) (table_hp 5) (\<lambda>epoch. [()]) [()] True 2 1 (snd (loop_body (table_framework [Finite (1/2), Finite (1/2)]) (table_hp 5) (\<lambda>epoch. [()]) [()] True 2 0 (init_state (table_framework [Finite (1/2), Finite (1/2)]) (table_hp 5))))))) = Some 1 \<and>
   checkpoint_is_best (table_framework [Finite (1/2), Finite (1/2)]) [()] (snd (loop_body (table_framework [Finite (1/2), Finite (1/2)]) (table_hp 5) (\<lambda>epoch. [()]) [()] True 2 1 (snd (loop_body (table_framework [Finite (1/2), Finite (1/2)]) (table_hp 5) (\<lambda>epoch. [()]) [()] True 2 0 (init_state (table_framework [Finite (1/2), Finite (1/2)]) (table_hp 5)))))) \<and>
   fst (loop_body (table_framework [Finite (1/2), Finite (1/2)]) (table_hp 5) (\<lambda>epoch. [()]) [] True 2 0 (init_state (table_framework [Finite (1/2), Finite (1/2)]) (table_hp 5))) = Raise ZeroDivisionError \<and>
   model_pth (objects (snd (loop_body (table_framework [Finite (1/2), Finite (1/2)]) (table_hp 5) (\<lambda>epoch. [()]) [] True 2 0 (init_state (table_framework [Finite (1/2), Finite (1/2)]) (table_hp 5))))) = None"
  using checkpoint_policy [where fw = "table_framework [Finite (1/2), Finite (1/2)]" and hp = "table_hp 5"
      and trl = "\<lambda>epoch. [()]" and vll = "[()]" and epoch = 1
      and s = "snd (loop_body (table_framework [Finite (1/2), Finite (1/2)]) (table_hp 5) (\<lambda>epoch. [()]) [()] True 2 0 (init_state (table_framework [Finite (1/2), Finite (1/2)]) (table_hp 5)))"
      and a = "Finite 1" and v = "Finite (1/2)" and lg = True and pat = 2]
    checkpoint_policy [where fw = "table_framework [Finite (1/2), Finite (1/2)]" and hp = "table_hp 5"
      and trl = "\<lambda>epoch. [()]" and vll = "[]" and epoch = 0
      and s = "init_state (table_framework [Finite (1/2), Finite (1/2)]) (table_hp 5)" and e = ZeroDivisionError and lg = True and pat = 2]
  by (simp add: run_defs epoch_train_loss_def epoch_val_loss_def checkpoint_is_best_def)

section \<open>The order of the steps of an epoch\<close>

text \<open>The events of an epoch in which both the trainer and the validator returned.\<close>

lemma loop_body_trace:
  assumes "epoch_train_loss fw hp trl epoch s = Inr a"
      and "epoch_val_loss fw hp trl vll epoch s = Inr v"
  shows "trace (objects (snd (loop_body fw hp trl vll lg pat epoch s))) =
      trace (objects s)
      @ concat (replicate (length (trl epoch)) [ForwardPass True (grad_enabled (objects s)), OptimizerStep])
      @ [SchedulerStep]
      @ replicate (length vll) (ForwardPass False False)
      @ [ReadLR (scheduler_lr fw hp (Suc (last_epoch (objects s))) (lr (objects s))),
         PrintEpoch (epoch + 1) a v (scheduler_lr fw hp (Suc (last_epoch (objects s))) (lr (objects s)))]
      @ (if flt v (best_val_loss s) then [SaveModel (params (epoch_objects fw hp trl vll epoch s))] else [])
      @ [if pat \<le> patience_counter (snd (loop_body fw hp trl vll lg pat epoch s))
         then PrintEarlyStop pat
         else if lg
         then WandbLog a v (best_val_loss (snd (loop_body fw hp trl vll lg pat epoch s)))
                (scheduler_lr fw hp (Suc (last_epoch (objects s))) (lr (objects s)))
         else PrintSkipLog]"
  by (simp add: loop_body_evaluated_state [OF assms] Let_def epoch_objects_world)

lemma loop_body_last_epoch:
  assumes "epoch_train_loss fw hp trl epoch s = Inr a"
      and "epoch_val_loss fw hp trl vll epoch s = Inr v"
  shows "last_epoch (objects (snd (loop_body fw hp trl vll lg pat epoch s))) = Suc (last_epoch (objects s)) \<and>
         lr (objects (snd (loop_body fw hp trl vll lg pat epoch s))) =
           scheduler_lr fw hp (Suc (last_epoch (objects s))) (lr (objects s))"
  by (simp add: loop_body_evaluated_state [OF assms] Let_def epoch_objects_world)

text \<open>
  C4, as the code has it.  In an epoch that is evaluated the events are, in this order:
  the trainer's passes over its batches (a forward pass and an optimizer update each), then
  one scheduler step, made by the trainer itself after its last batch; then the validator's
  forward passes; then the reading of the learning rate, which is therefore the rate that
  this epoch's scheduler step has set; then the epoch's line of output, the checkpoint if
  the loss improved, and the early-stop notice or the metrics.  The scheduler counts exactly
  one step per epoch.
\<close>

theorem epoch_event_order:
  "epoch_train_loss fw hp trl epoch s = Inr a \<and> epoch_val_loss fw hp trl vll epoch s = Inr v \<longrightarrow>
   trace (objects (snd (loop_body fw hp trl vll lg pat epoch s))) =
      trace (objects s)
      @ concat (replicate (length (trl epoch)) [ForwardPass True (grad_enabled (objects s)), OptimizerStep])
      @ [SchedulerStep]
      @ replicate (length vll) (ForwardPass False False)
      @ [ReadLR (scheduler_lr fw hp (Suc (last_epoch (objects s))) (lr (objects s))),
         PrintEpoch (epoch + 1) a v (scheduler_lr fw hp (Suc (last_epoch (objects s))) (lr (objects s)))]
      @ (if flt v (best_val_loss s) then [SaveModel (params (epoch_objects fw hp trl vll epoch s))] else [])
      @ [if pat \<le> patience_counter (snd (loop_body fw hp trl vll lg pat epoch s))
         then PrintEarlyStop pat
         else if lg
         then WandbLog a v (best_val_loss (snd (loop_body fw hp trl vll lg pat epoch s)))
                (scheduler_lr fw hp (Suc (last_epoch (objects s))) (lr (objects s)))
         else PrintSkipLog] \<and>
   last_epoch (objects (snd (loop_body fw hp trl vll lg pat epoch s))) = Suc (last_epoch (objects s)) \<and>
   lr (objects (snd (loop_body fw hp trl vll lg pat epoch s))) =
     scheduler_lr fw hp (Suc (last_epoch (objects s))) (lr (objects s))"
  using loop_body_trace [of fw hp trl epoch s a vll v lg pat]
    loop_body_last_epoch [of fw hp trl epoch s a vll v lg pat]
  by blast

theorem epoch_event_order_witness:
  "epoch_train_loss (table_framework [Finite (1/2)]) (table_hp 1) (\<lambda>epoch. [(), ()]) 0
      (init_state (table_framework [Finite (1/2)]) (table_hp 1)) = Inr (Finite 1) \<and>
   epoch_val_loss (table_framework [Finite (1/2)]) (table_hp 1) (\<lambda>epoch. [(), ()]) [()] 0
      (init_state (table_framework [Finite (1/2)]) (table_hp 1)) = Inr NaN \<and>
   trace (objects (snd (loop_body (table_framework [Finite (1/2)]) (table_hp 1)
      (\<lambda>epoch. [(), ()]) [()] False 1 0
      (init_state (table_framework [Finite (1/2)]) (table_hp 1))))) =
     [ForwardPass True True, OptimizerStep, ForwardPass True True, OptimizerStep, SchedulerStep,
      ForwardPass False False, ReadLR (Finite 1), PrintEpoch 1 (Finite 1) NaN (Finite 1),
      PrintEarlyStop 1] \<and>
   last_epoch (objects (snd (loop_body (table_framework [Finite (1/2)]) (table_hp 1)
      (\<lambda>epoch. [(), ()]) [()] False 1 0
      (init_state (table_framework [Finite (1/2)]) (table_hp 1))))) = 1"
  using epoch_event_order [where fw = "table_framework [Finite (1/2)]" and hp = "table_hp 1"
      and trl = "\<lambda>epoch. [(), ()]" and vll = "[()]" and epoch = 0
      and s = "init_state (table_framework [Finite (1/2)]) (table_hp 1)"
      and a = "Finite 1" and v = NaN and lg = False and pat = 1]
  by (simp add: run_defs epoch_train_loss_def epoch_val_loss_def)

text \<open>
  C4 as stated fails: in a run of one epoch with one training batch and one validation
  batch the scheduler step comes before the validator's forward pass and before the reading
  of the learning rate, and the rate read is the one the step has set (1), not the initial
  one (0).
\<close>

theorem scheduler_order_counterexample:
  "trace (objects (snd (run_loop (table_framework [Finite (1/2)]) (table_hp 1) table_df False True 10))) =
     [ForwardPass True True, OptimizerStep, SchedulerStep, ForwardPass False False,
      ReadLR (Finite 1), PrintEpoch 1 (Finite 1) (Finite (1/2)) (Finite 1), SaveModel 1,
      WandbLog (Finite 1) (Finite (1/2)) (Finite (1/2)) (Finite 1)] \<and>
   lr (init_world (table_framework [Finite (1/2)]) (table_hp 1)) = Finite 0"
  by (simp add: run_defs)

section \<open>The metrics sink\<close>

text \<open>The calls of the metrics sink that an epoch adds.\<close>

lemma loop_body_wandb_logs:
  assumes "epoch_train_loss fw hp trl epoch s = Inr a"
      and "epoch_val_loss fw hp trl vll epoch s = Inr v"
  shows "wandb_logs (trace (objects (snd (loop_body fw hp trl vll lg pat epoch s)))) =
           wandb_logs (trace (objects s)) @
           (if lg \<and> fst (loop_body fw hp trl vll lg pat epoch s) = Next
            then [WandbLog a v (best_val_loss (snd (loop_body fw hp trl vll lg pat epoch s)))
                    (lr (objects (snd (loop_body fw hp trl vll lg pat epoch s))))]
            else []) \<and>
         executed_val_losses (trace (objects (snd (loop_body fw hp trl vll lg pat epoch s)))) =
           executed_val_losses (trace (objects s)) @ [v]"
  by (simp add: loop_body_evaluated_state [OF assms] Let_def epoch_objects_world)

lemma loop_body_raise_wandb_logs:
  assumes "fst (loop_body fw hp trl vll lg pat epoch s) = Raise e"
  shows "wandb_logs (trace (objects (snd (loop_body fw hp trl vll lg pat epoch s)))) =
           wandb_logs (trace (objects s)) \<and>
         executed_val_losses (trace (objects (snd (loop_body fw hp trl vll lg pat epoch s)))) =
           executed_val_losses (trace (objects s))"
proof (cases rule: loop_body_cases [where fw = fw and hp = hp and trl = trl and epoch = epoch and s = s and vll = vll])
  case (train_raises e)
  then show ?thesis by (simp add: loop_body_train_raises train_world)
next
  case (validate_raises a e)
  then show ?thesis by (simp add: loop_body_validate_raises epoch_objects_world)
next
  case (evaluated a v)
  then show ?thesis using assms
    by (simp add: loop_body_evaluated_state [OF evaluated] Let_def split: if_splits)
qed

text \<open>An epoch that goes on to the next one is evaluated; so is one that breaks.\<close>

lemma loop_body_evaluated_if_not_raise:
  assumes "fst (loop_body fw hp trl vll lg pat epoch s) = Next \<or>
           fst (loop_body fw hp trl vll lg pat epoch s) = Break"
  shows "\<exists>a v. epoch_train_loss fw hp trl epoch s = Inr a \<and> epoch_val_loss fw hp trl vll epoch s = Inr v"
proof (cases rule: loop_body_cases [where fw = fw and hp = hp and trl = trl and epoch = epoch and s = s and vll = vll])
  case (train_raises e)
  then show ?thesis using assms by (simp add: loop_body_train_raises)
next
  case (validate_raises a e)
  then show ?thesis using assms by (simp add: loop_body_validate_raises)
next
  case (evaluated a v)
  then show ?thesis by blast
qed

lemma loop_body_Next_logs:
  assumes "fst (loop_body fw hp trl vll True pat epoch s) = Next"
      and "length (wandb_logs (trace (objects s))) = length (executed_val_losses (trace (objects s)))"
  shows "length (wandb_logs (trace (objects (snd (loop_body fw hp trl vll True pat epoch s))))) =
         length (executed_val_losses (trace (objects (snd (loop_body fw hp trl vll True pat epoch s)))))"
proof -
  obtain a v where av: "epoch_train_loss fw hp trl epoch s = Inr a"
      "epoch_val_loss fw hp trl vll epoch s = Inr v"
    using loop_body_evaluated_if_not_raise [of fw hp trl vll True pat epoch s] assms(1) by blast
  show ?thesis using loop_body_wandb_logs [OF av, of True pat] assms by simp
qed

lemma loop_body_Break_logs:
  assumes "fst (loop_body fw hp trl vll True pat epoch s) = Break"
      and "length (wandb_logs (trace (objects s))) = length (executed_val_losses (trace (objects s)))"
  shows "Suc (length (wandb_logs (trace (objects (snd (loop_body fw hp trl vll True pat epoch s)))))) =
         length (executed_val_losses (trace (objects (snd (loop_body fw hp trl vll True pat epoch s)))))"
proof -
  obtain a v where av: "epoch_train_loss fw hp trl epoch s = Inr a"
      "epoch_val_loss fw hp trl vll epoch s = Inr v"
    using loop_body_evaluated_if_not_raise [of fw hp trl vll True pat epoch s] assms(1) by blast
  show ?thesis using loop_body_wandb_logs [OF av, of True pat] assms by simp
qed

lemma epoch_loop_logs:
  assumes "length (wandb_logs (trace (objects (s :: ('p, 'g, 'o) run_state)))) =
           length (executed_val_losses (trace (objects s)))"
  shows "(fst (epoch_loop fw hp trl vll True pat es s) = Next \<longrightarrow>
            length (wandb_logs (trace (objects (snd (epoch_loop fw hp trl vll True pat es s))))) =
            length (executed_val_losses (trace (objects (snd (epoch_loop fw hp trl vll True pat es s)))))) \<and>
         (fst (epoch_loop fw hp trl vll True pat es s) = Break \<longrightarrow>
            Suc (length (wandb_logs (trace (objects (snd (epoch_loop fw hp trl vll True pat es s)))))) =
            length (executed_val_losses (trace (objects (snd (epoch_loop fw hp trl vll True pat es s))))))"
proof (intro conjI impI)
  let ?P = "\<lambda>s :: ('p, 'g, 'o) run_state.
     length (wandb_logs (trace (objects s))) = length (executed_val_losses (trace (objects s)))"
  {
    assume nxt: "fst (epoch_loop fw hp trl vll True pat es s) = Next"
    show "?P (snd (epoch_loop fw hp trl vll True pat es s))"
      by (rule epoch_loop_next_invariant [where P = ?P]) (simp_all add: loop_body_Next_logs assms nxt)
  }
  {
    assume brk: "fst (epoch_loop fw hp trl vll True pat es s) = Break"
    have "\<exists>epoch s0. ?P s0 \<and> epoch \<in> set es \<and>
            loop_body fw hp trl vll True pat epoch s0 = epoch_loop fw hp trl vll True pat es s"
      by (rule epoch_loop_stop_pass [where P = ?P]) (simp_all add: loop_body_Next_logs assms brk)
    then obtain epoch s0 where s0: "?P s0"
      and b: "loop_body fw hp trl vll True pat epoch s0 = epoch_loop fw hp trl vll True pat es s"
      by blast
    show "Suc (length (wandb_logs (trace (objects (snd (epoch_loop fw hp trl vll True pat es s)))))) =
          length (executed_val_losses (trace (objects (snd (epoch_loop fw hp trl vll True pat es s)))))"
      using loop_body_Break_logs [of fw hp trl vll pat epoch s0] s0 brk by (simp add: b)
  }
qed

text \<open>
  C5, as the code has it.  With logging enabled, an epoch that is evaluated calls the
  metrics sink, once and with the losses of that epoch, unless that epoch triggers the
  early stop; an epoch that raises does not call it.  So in a run that uses up its epoch
  budget every evaluated epoch is logged, the last one too, and in a run that stops early
  every evaluated epoch but the last is logged.
\<close>

theorem log_unless_early_stop:
  "(epoch_train_loss fw hp trl epoch s = Inr a \<and> epoch_val_loss fw hp trl vll epoch s = Inr v \<longrightarrow>
      wandb_logs (trace (objects (snd (loop_body fw hp trl vll True pat epoch s)))) =
        wandb_logs (trace (objects s)) @
        (if fst (loop_body fw hp trl vll True pat epoch s) = Break then []
         else [WandbLog a v (best_val_loss (snd (loop_body fw hp trl vll True pat epoch s)))
                 (lr (objects (snd (loop_body fw hp trl vll True pat epoch s))))])) \<and>
   (fst (loop_body fw hp trl vll True pat epoch s) = Raise e \<longrightarrow>
      wandb_logs (trace (objects (snd (loop_body fw hp trl vll True pat epoch s)))) =
        wandb_logs (trace (objects s))) \<and>
   (fst (run_loop fw hp df m True pat) = Next \<longrightarrow>
      length (wandb_logs (trace (objects (snd (run_loop fw hp df m True pat))))) =
      length (executed_val_losses (trace (objects (snd (run_loop fw hp df m True pat)))))) \<and>
   (fst (run_loop fw hp df m True pat) = Break \<longrightarrow>
      Suc (length (wandb_logs (trace (objects (snd (run_loop fw hp df m True pat)))))) =
      length (executed_val_losses (trace (objects (snd (run_loop fw hp df m True pat))))))"
proof -
  have A: "epoch_train_loss fw hp trl epoch s = Inr a \<and> epoch_val_loss fw hp trl vll epoch s = Inr v \<longrightarrow>
      wandb_logs (trace (objects (snd (loop_body fw hp trl vll True pat epoch s)))) =
        wandb_logs (trace (objects s)) @
        (if fst (loop_body fw hp trl vll True pat epoch s) = Break then []
         else [WandbLog a v (best_val_loss (snd (loop_body fw hp trl vll True pat epoch s)))
                 (lr (objects (snd (loop_body fw hp trl vll True pat epoch s))))])"
  proof
    assume h: "epoch_train_loss fw hp trl epoch s = Inr a \<and> epoch_val_loss fw hp trl vll epoch s = Inr v"
    have "fst (loop_body fw hp trl vll True pat epoch s) = Break \<or>
          fst (loop_body fw hp trl vll True pat epoch s) = Next"
      by (simp add: loop_body_evaluated_state [OF conjunct1 [OF h] conjunct2 [OF h]] Let_def)
    then show "wandb_logs (trace (objects (snd (loop_body fw hp trl vll True pat epoch s)))) =
        wandb_logs (trace (objects s)) @
        (if fst (loop_body fw hp trl vll True pat epoch s) = Break then []
         else [WandbLog a v (best_val_loss (snd (loop_body fw hp trl vll True pat epoch s)))
                 (lr (objects (snd (loop_body fw hp trl vll True pat epoch s))))])"
      using loop_body_wandb_logs [OF conjunct1 [OF h] conjunct2 [OF h], of True pat] by auto
  qed
  have B: "fst (loop_body fw hp trl vll True pat epoch s) = Raise e \<longrightarrow>
      wandb_logs (trace (objects (snd (loop_body fw hp trl vll True pat epoch s)))) =
        wandb_logs (trace (objects s))"
    using loop_body_raise_wandb_logs by blast
  have i: "length (wandb_logs (trace (objects (init_state fw hp)))) =
           length (executed_val_losses (trace (objects (init_state fw hp))))"
    by (simp add: init_state_def init_world_def)
  note e = epoch_loop_logs [OF i, of fw hp "run_train_loader fw hp df m"
      "run_val_loader fw hp df m" pat "[0 ..< nat (hp_epochs hp)]"]
  have C: "fst (run_loop fw hp df m True pat) = Next \<longrightarrow>
      length (wandb_logs (trace (objects (snd (run_loop fw hp df m True pat))))) =
      length (executed_val_losses (trace (objects (snd (run_loop fw hp df m True pat)))))"
    unfolding run_loop_unfold using e by simp
  have D: "fst (run_loop fw hp df m True pat) = Break \<longrightarrow>
      Suc (length (wandb_logs (trace (objects (snd (run_loop fw hp df m True pat)))))) =
      length (executed_val_losses (trace (objects (snd (run_loop fw hp df m True pat)))))"
    unfolding run_loop_unfold using e by simp
  show ?thesis by (intro conjI A B C D)
qed

theorem log_unless_early_stop_witness:
  "epoch_train_loss (table_framework [Finite (1/2), Finite (2/5)]) (table_hp 2) (\<lambda>epoch. [()]) 0 (init_state (table_framework [Finite (1/2), Finite (2/5)]) (table_hp 2)) = Inr (Finite 1) \<and>
   epoch_val_loss (table_framework [Finite (1/2), Finite (2/5)]) (table_hp 2) (\<lambda>epoch. [()]) [()] 0 (init_state (table_framework [Finite (1/2), Finite (2/5)]) (table_hp 2)) = Inr (Finite (1/2)) \<and>
   wandb_logs (trace (objects (snd (loop_body (table_framework [Finite (1/2), Finite (2/5)]) (table_hp 2) (\<lambda>epoch. [()]) [()] True 10 0 (init_state (table_framework [Finite (1/2), Finite (2/5)]) (table_hp 2)))))) =
     [WandbLog (Finite 1) (Finite (1/2)) (Finite (1/2)) (Finite 1)] \<and>
   fst (loop_body (table_framework [Finite (1/2), Finite (2/5)]) (table_hp 2) (\<lambda>epoch. [()]) [] True 10 0 (init_state (table_framework [Finite (1/2), Finite (2/5)]) (table_hp 2))) = Raise ZeroDivisionError \<and>
   wandb_logs (trace (objects (snd (loop_body (table_framework [Finite (1/2), Finite (2/5)]) (table_hp 2) (\<lambda>epoch. [()]) [] True 10 0 (init_state (table_framework [Finite (1/2), Finite (2/5)]) (table_hp 2)))))) = [] \<and>
   fst (run_loop (table_framework [Finite (1/2), Finite (2/5)]) (table_hp 2) table_df False True 10) = Next \<and>
   length (wandb_logs (trace (objects (snd (run_loop (table_framework [Finite (1/2), Finite (2/5)]) (table_hp 2) table_df False True 10))))) = 2 \<and>
   fst (run_loop (table_framework [Finite (1/2), Finite (3/5), Finite (7/10)]) (table_hp 5) table_df False True 2) = Break \<and>
   length (wandb_logs (trace (objects (snd (run_loop (table_framework [Finite (1/2), Finite (3/5), Finite (7/10)]) (table_hp 5) table_df False True 2))))) = 2 \<and>
   length (executed_val_losses (trace (objects (snd (run_loop (table_framework [Finite (1/2), Finite (3/5), Finite (7/10)]) (table_hp 5) table_df False True 2))))) = 3"
  using log_unless_early_stop [where fw = "table_framework [Finite (1/2), Finite (2/5)]" and hp = "table_hp 2"
      and trl = "\<lambda>epoch. [()]" and vll = "[()]" and epoch = 0
      and s = "init_state (table_framework [Finite (1/2), Finite (2/5)]) (table_hp 2)"
      and a = "Finite 1" and v = "Finite (1/2)" and pat = 10 and df = table_df and m = False]
    log_unless_early_stop [where fw = "table_framework [Finite (1/2), Finite (2/5)]" and hp = "table_hp 2"
      and trl = "\<lambda>epoch. [()]" and vll = "[]" and epoch = 0
      and s = "init_state (table_framework [Finite (1/2), Finite (2/5)]) (table_hp 2)" and e = ZeroDivisionError and pat = 10]
    log_unless_early_stop [where fw = "table_framework [Finite (1/2), Finite (3/5), Finite (7/10)]" and hp = "table_hp 5"
      and pat = 2 and df = table_df and m = False]
  by (simp add: run_defs epoch_train_loss_def epoch_val_loss_def)

text \<open>
  C5 as stated fails for the epoch that uses up the budget: in a run of 2 epochs, patience
  10, with validation losses 0.5 and 0.4, the loop ends because the budget is used up, and
  the sink has been called for both epochs, the final one included.
\<close>

theorem final_epoch_logged_counterexample:
  "fst (run_loop (table_framework [Finite (1/2), Finite (2/5)]) (table_hp 2) table_df False True 10) = Next \<and>
   executed_val_losses (trace (objects (snd (run_loop (table_framework [Finite (1/2), Finite (2/5)]) (table_hp 2) table_df False True 10)))) = [Finite (1/2), Finite (2/5)] \<and>
   wandb_logs (trace (objects (snd (run_loop (table_framework [Finite (1/2), Finite (2/5)]) (table_hp 2) table_df False True 10)))) =
     [WandbLog (Finite 1) (Finite (1/2)) (Finite (1/2)) (Finite 1),
      WandbLog (Finite 1) (Finite (2/5)) (Finite (2/5)) (Finite 2)]"
  by (simp add: run_defs)

section \<open>The logging flag\<close>

lemma quiet_append [simp]: "quiet (xs @ ys) = quiet xs @ quiet ys"
  by (simp add: quiet_def)

lemma quiet_simps [simp]:
  "quiet [] = []"
  "quiet (e # es) = (if is_log_event e then quiet es else e # quiet es)"
  "quiet (concat (replicate n [ForwardPass t g, OptimizerStep])) =
     concat (replicate n [ForwardPass t g, OptimizerStep])"
  "quiet (replicate n (ForwardPass t g)) = replicate n (ForwardPass t g)"
  by (simp_all add: quiet_def filter_concat)

text \<open>Two worlds that agree except for the trace.\<close>

lemma world_eq_but_trace:
  "(w\<lparr>trace := tr\<rparr> = w'\<lparr>trace := tr'\<rparr>) \<longleftrightarrow>
     (params w = params w' \<and> training w = training w' \<and> grads w = grads w' \<and>
      grad_enabled w = grad_enabled w' \<and> opt_state w = opt_state w' \<and> lr w = lr w' \<and>
      last_epoch w = last_epoch w' \<and> model_pth w = model_pth w' \<and> tr = tr')"
  for w w' :: "('p, 'g, 'o) world"
  by (cases w; cases w') auto

lemma train_batches_but_trace:
  assumes "w\<lparr>trace := []\<rparr> = w'\<lparr>trace := []\<rparr>"
  shows "snd (train_batches fw hp bs (w, t)) = snd (train_batches fw hp bs (w', t)) \<and>
         (fst (train_batches fw hp bs (w, t)))\<lparr>trace := []\<rparr> =
         (fst (train_batches fw hp bs (w', t)))\<lparr>trace := []\<rparr>"
  using assms
proof (induction bs arbitrary: w w' t)
  case Nil
  then show ?case by simp
next
  case (Cons b bs)
  have eqs: "params w = params w'" "training w = training w'" "grads w = grads w'"
    "grad_enabled w = grad_enabled w'" "opt_state w = opt_state w'" "lr w = lr w'"
    "last_epoch w = last_epoch w'" "model_pth w = model_pth w'"
    using Cons.prems by (simp_all add: world_eq_but_trace)
  obtain p' o' where os: "optimizer_step fw (lr w') (opt_state w') (params w')
      (clip_grad_norm fw (hp_clip_grad hp) (backward fw (params w') b (zero_grad fw (grads w')))) = (p', o')"
    by (cases "optimizer_step fw (lr w') (opt_state w') (params w')
      (clip_grad_norm fw (hp_clip_grad hp) (backward fw (params w') b (zero_grad fw (grads w'))))")
  show ?case
    apply (simp add: Let_def eqs os)
    apply (rule Cons.IH)
    apply (simp add: world_eq_but_trace emit_def eqs)
    done
qed

lemma train_but_trace:
  assumes "w\<lparr>trace := []\<rparr> = w'\<lparr>trace := []\<rparr>"
  shows "fst (train fw hp bs w) = fst (train fw hp bs w') \<and>
         (snd (train fw hp bs w))\<lparr>trace := []\<rparr> = (snd (train fw hp bs w'))\<lparr>trace := []\<rparr>"
proof -
  have eqs: "w\<lparr>training := True\<rparr>\<lparr>trace := []\<rparr> = w'\<lparr>training := True\<rparr>\<lparr>trace := []\<rparr>"
    using assms by (simp add: world_eq_but_trace)
  obtain w2 t2 where r: "train_batches fw hp bs (w\<lparr>training := True\<rparr>, Finite 0) = (w2, t2)"
    by (cases "train_batches fw hp bs (w\<lparr>training := True\<rparr>, Finite 0)")
  obtain w2' t2' where r': "train_batches fw hp bs (w'\<lparr>training := True\<rparr>, Finite 0) = (w2', t2')"
    by (cases "train_batches fw hp bs (w'\<lparr>training := True\<rparr>, Finite 0)")
  have "t2 = t2' \<and> w2\<lparr>trace := []\<rparr> = w2'\<lparr>trace := []\<rparr>"
    using train_batches_but_trace [OF eqs, of fw hp bs "Finite 0"] by (simp add: r r')
  then show ?thesis
    by (simp add: train_def Let_def r r' scheduler_step_def emit_def world_eq_but_trace)
qed

lemma validate_but_trace:
  assumes "w\<lparr>trace := []\<rparr> = w'\<lparr>trace := []\<rparr>"
  shows "fst (validate fw bs w) = fst (validate fw bs w') \<and>
         (snd (validate fw bs w))\<lparr>trace := []\<rparr> = (snd (validate fw bs w'))\<lparr>trace := []\<rparr>"
  using assms by (simp add: validate_value validate_world world_eq_but_trace)

lemma same_but_logs_iff:
  "same_but_logs s t \<longleftrightarrow>
     best_val_loss s = best_val_loss t \<and> patience_counter s = patience_counter t \<and>
     (objects s)\<lparr>trace := []\<rparr> = (objects t)\<lparr>trace := []\<rparr> \<and>
     quiet (trace (objects s)) = quiet (trace (objects t))"
  by (auto simp add: same_but_logs_def world_eq_but_trace)

text \<open>The trainer and the validator do not look at the trace.\<close>

lemma epoch_but_logs:
  assumes "same_but_logs s t"
  shows "epoch_train_loss fw hp trl epoch s = epoch_train_loss fw hp trl epoch t"
    and "epoch_val_loss fw hp trl vll epoch s = epoch_val_loss fw hp trl vll epoch t"
    and "(snd (train fw hp (trl epoch) (objects s)))\<lparr>trace := []\<rparr> =
         (snd (train fw hp (trl epoch) (objects t)))\<lparr>trace := []\<rparr>"
    and "quiet (trace (snd (train fw hp (trl epoch) (objects s)))) =
         quiet (trace (snd (train fw hp (trl epoch) (objects t))))"
    and "(epoch_objects fw hp trl vll epoch s)\<lparr>trace := []\<rparr> =
         (epoch_objects fw hp trl vll epoch t)\<lparr>trace := []\<rparr>"
    and "quiet (trace (epoch_objects fw hp trl vll epoch s)) =
         quiet (trace (epoch_objects fw hp trl vll epoch t))"
proof -
  have o: "(objects s)\<lparr>trace := []\<rparr> = (objects t)\<lparr>trace := []\<rparr>"
    and q: "quiet (trace (objects s)) = quiet (trace (objects t))"
    using assms by (simp_all add: same_but_logs_iff)
  have g: "grad_enabled (objects s) = grad_enabled (objects t)"
    using o by (simp add: world_eq_but_trace)
  note t = train_but_trace [OF o, of fw hp "trl epoch"]
  note v = validate_but_trace [OF conjunct2 [OF t], of fw vll]
  show "epoch_train_loss fw hp trl epoch s = epoch_train_loss fw hp trl epoch t"
    using t by (simp add: epoch_train_loss_def)
  show "epoch_val_loss fw hp trl vll epoch s = epoch_val_loss fw hp trl vll epoch t"
    using v by (simp add: epoch_val_loss_def)
  show "(snd (train fw hp (trl epoch) (objects s)))\<lparr>trace := []\<rparr> =
        (snd (train fw hp (trl epoch) (objects t)))\<lparr>trace := []\<rparr>"
    using t by simp
  show "quiet (trace (snd (train fw hp (trl epoch) (objects s)))) =
        quiet (trace (snd (train fw hp (trl epoch) (objects t))))"
    by (simp add: train_world q g)
  show "(epoch_objects fw hp trl vll epoch s)\<lparr>trace := []\<rparr> =
        (epoch_objects fw hp trl vll epoch t)\<lparr>trace := []\<rparr>"
    using v by (simp add: epoch_objects_def)
  show "quiet (trace (epoch_objects fw hp trl vll epoch s)) =
        quiet (trace (epoch_objects fw hp trl vll epoch t))"
    by (simp add: epoch_objects_world q g)
qed

text \<open>One epoch without and with logging, from states that differ in log events only.\<close>

lemma loop_body_but_logs:
  assumes "same_but_logs s t"
  shows "fst (loop_body fw hp trl vll False pat epoch s) = fst (loop_body fw hp trl vll True pat epoch t) \<and>
         same_but_logs (snd (loop_body fw hp trl vll False pat epoch s))
                       (snd (loop_body fw hp trl vll True pat epoch t))"
proof -
  have b: "best_val_loss s = best_val_loss t" and c: "patience_counter s = patience_counter t"
    using assms by (simp_all add: same_but_logs_iff)
  note e1 = epoch_but_logs(1) [OF assms, of fw hp trl epoch]
  note e2 = epoch_but_logs(2) [OF assms, of fw hp trl vll epoch]
  note e3 = epoch_but_logs(3) [OF assms, of fw hp trl epoch]
  note e4 = epoch_but_logs(4) [OF assms, of fw hp trl epoch]
  note e5 = epoch_but_logs(5) [OF assms, of fw hp trl vll epoch]
  note e6 = epoch_but_logs(6) [OF assms, of fw hp trl vll epoch]
  show ?thesis
  proof (cases rule: loop_body_cases [where fw = fw and hp = hp and trl = trl and epoch = epoch and s = s and vll = vll])
    case (train_raises x)
    then have "epoch_train_loss fw hp trl epoch t = Inl x" using e1 by simp
    then show ?thesis using train_raises e3 e4 b c
      by (simp add: loop_body_train_raises same_but_logs_iff)
  next
    case (validate_raises a x)
    then have "epoch_train_loss fw hp trl epoch t = Inr a" "epoch_val_loss fw hp trl vll epoch t = Inl x"
      using e1 e2 by simp_all
    then show ?thesis using validate_raises e5 e6 b c
      by (simp add: loop_body_validate_raises same_but_logs_iff)
  next
    case (evaluated a v)
    then have t: "epoch_train_loss fw hp trl epoch t = Inr a" "epoch_val_loss fw hp trl vll epoch t = Inr v"
      using e1 e2 by simp_all
    have f: "params (epoch_objects fw hp trl vll epoch s) = params (epoch_objects fw hp trl vll epoch t)"
      "lr (epoch_objects fw hp trl vll epoch s) = lr (epoch_objects fw hp trl vll epoch t)"
      "model_pth (epoch_objects fw hp trl vll epoch s) = model_pth (epoch_objects fw hp trl vll epoch t)"
      using e5 by (simp_all add: world_eq_but_trace)
    show ?thesis using e5 e6 b c f
      by (simp add: loop_body_evaluated_state [OF evaluated] loop_body_evaluated_state [OF t]
          Let_def same_but_logs_iff world_eq_but_trace)
  qed
qed

lemma epoch_loop_but_logs:
  assumes "same_but_logs s t"
  shows "fst (epoch_loop fw hp trl vll False pat es s) = fst (epoch_loop fw hp trl vll True pat es t) \<and>
         same_but_logs (snd (epoch_loop fw hp trl vll False pat es s))
                       (snd (epoch_loop fw hp trl vll True pat es t))"
  using assms
proof (induction es arbitrary: s t)
  case Nil
  then show ?case by simp
next
  case (Cons epoch es)
  obtain c s' where bs: "loop_body fw hp trl vll False pat epoch s = (c, s')"
    by (cases "loop_body fw hp trl vll False pat epoch s")
  obtain d t' where bt: "loop_body fw hp trl vll True pat epoch t = (d, t')"
    by (cases "loop_body fw hp trl vll True pat epoch t")
  have cd: "c = d" and r: "same_but_logs s' t'"
    using loop_body_but_logs [OF Cons.prems, of fw hp trl vll pat epoch] by (simp_all add: bs bt)
  show ?case using Cons.IH [OF r] r by (cases d) (simp_all add: bs bt cd)
qed

text \<open>Without logging no epoch calls the sink.\<close>

lemma loop_body_no_logs:
  assumes "wandb_logs (trace (objects s)) = []"
  shows "wandb_logs (trace (objects (snd (loop_body fw hp trl vll False pat epoch s)))) = []"
proof (cases rule: loop_body_cases [where fw = fw and hp = hp and trl = trl and epoch = epoch and s = s and vll = vll])
  case (train_raises e)
  then show ?thesis using assms by (simp add: loop_body_train_raises train_world)
next
  case (validate_raises a e)
  then show ?thesis using assms by (simp add: loop_body_validate_raises epoch_objects_world)
next
  case (evaluated a v)
  then show ?thesis using assms loop_body_wandb_logs [OF evaluated, of False pat] by simp
qed

text \<open>
  C8.  With \<open>log_wandb\<close> false the metrics sink is never called.  The run ends the same
  way as with logging (used-up budget, early stop, or the same exception), returns the same
  value, and leaves the same best loss, patience counter, model, optimizer, scheduler and
  checkpoint; the two traces differ only in the calls of the sink and the notices printed
  instead of them.
\<close>

theorem logging_flag_is_inert:
  "wandb_logs (trace (objects (snd (run_loop fw hp df m False pat)))) = [] \<and>
   train_loop fw hp df m False pat = train_loop fw hp df m True pat \<and>
   fst (run_loop fw hp df m False pat) = fst (run_loop fw hp df m True pat) \<and>
   best_val_loss (snd (run_loop fw hp df m False pat)) = best_val_loss (snd (run_loop fw hp df m True pat)) \<and>
   patience_counter (snd (run_loop fw hp df m False pat)) =
     patience_counter (snd (run_loop fw hp df m True pat)) \<and>
   (objects (snd (run_loop fw hp df m False pat)))\<lparr>trace := []\<rparr> =
     (objects (snd (run_loop fw hp df m True pat)))\<lparr>trace := []\<rparr> \<and>
   quiet (trace (objects (snd (run_loop fw hp df m False pat)))) =
     quiet (trace (objects (snd (run_loop fw hp df m True pat))))"
proof -
  have A: "wandb_logs (trace (objects (snd (run_loop fw hp df m False pat)))) = []"
  proof (rule run_loop_property [where Q = "\<lambda>r. wandb_logs (trace (objects (snd r))) = []"])
    have i: "wandb_logs (trace (objects (init_state fw hp))) = []"
      by (simp add: init_state_def init_world_def)
    then show "wandb_logs (trace (objects (snd (Raise ValueError, init_state fw hp)))) = []"
      by simp
    show "wandb_logs (trace (objects (snd (epoch_loop fw hp (run_train_loader fw hp df m)
            (run_val_loader fw hp df m) False pat [0 ..< nat (hp_epochs hp)] (init_state fw hp))))) = []"
      by (rule epoch_loop_invariant [where P = "\<lambda>s. wandb_logs (trace (objects s)) = []"])
         (simp_all add: loop_body_no_logs i)
  qed
  have i: "same_but_logs (init_state fw hp) (init_state fw hp)"
    by (simp add: same_but_logs_def)
  have sim: "fst (run_loop fw hp df m False pat) = fst (run_loop fw hp df m True pat) \<and>
      same_but_logs (snd (run_loop fw hp df m False pat)) (snd (run_loop fw hp df m True pat))"
    unfolding run_loop_unfold
    using epoch_loop_but_logs [OF i, where fw = fw and hp = hp
        and trl = "run_train_loader fw hp df m" and vll = "run_val_loader fw hp df m"
        and pat = pat and es = "[0 ..< nat (hp_epochs hp)]"] i
    by simp
  then have B: "train_loop fw hp df m False pat = train_loop fw hp df m True pat"
    by (cases "run_loop fw hp df m False pat"; cases "run_loop fw hp df m True pat")
       (simp add: train_loop_def same_but_logs_iff split: ctl.splits)
  show ?thesis using A B sim by (simp add: same_but_logs_iff)
qed

section \<open>The mean of the batch losses, in floats\<close>

lemma pow2_powr: "pow2 e = 2 powr (real_of_int e)"
proof (cases "0 \<le> e")
  case True
  then have "2 powr (real_of_int e) = 2 powr (real (nat e))" by simp
  also have "\<dots> = 2 ^ nat e" by (simp add: powr_realpow)
  finally show ?thesis using True by (simp add: pow2_def)
next
  case False
  then have "2 powr (real_of_int e) = 2 powr (- real (nat (- e)))" by simp
  also have "\<dots> = 1 / 2 powr (real (nat (- e)))" by (simp only: powr_minus_divide)
  also have "\<dots> = 1 / 2 ^ nat (- e)" by (simp add: powr_realpow)
  finally show ?thesis using False by (simp add: pow2_def)
qed

lemma ulp_exponent_eq:
  assumes "pow2 k \<le> \<bar>x\<bar>" and "\<bar>x\<bar> < pow2 (k + 1)" and "- 1022 \<le> k"
  shows "ulp_exponent x = k - 52"
proof -
  have "0 < pow2 k" by (simp add: pow2_powr)
  then have pos: "0 < \<bar>x\<bar>" using assms(1) by linarith
  have "\<lfloor>log 2 \<bar>x\<bar>\<rfloor> = k"
    using assms(1,2) pos by (simp add: floor_log_eq_powr_iff pow2_powr)
  then show ?thesis using assms(3) by (simp add: ulp_exponent_def)
qed

lemma overflow_threshold_gt: "2 < overflow_threshold"
proof -
  have "(2::real) ^ 1 < 2 ^ 1024" by (rule power_strict_increasing) simp_all
  then show ?thesis by (simp add: overflow_threshold_def)
qed

lemma round64_eq:
  assumes "pow2 k \<le> \<bar>x\<bar>" and "\<bar>x\<bar> < pow2 (k + 1)" and "- 1022 \<le> k"
      and "round_half_even (x / pow2 (k - 52)) = m"
      and "\<bar>of_int m * pow2 (k - 52)\<bar> \<le> 2"
  shows "round64 x = Finite (of_int m * pow2 (k - 52))"
proof -
  have "0 < pow2 k" by (simp add: pow2_powr)
  then have x: "x \<noteq> 0" using assms(1) by auto
  have lt: "of_int m * pow2 (k - 52) < overflow_threshold"
    and gt: "- overflow_threshold < of_int m * pow2 (k - 52)"
    using assms(5) overflow_threshold_gt by linarith+
  have "\<not> overflow_threshold \<le> of_int m * pow2 (k - 52)"
    and "\<not> of_int m * pow2 (k - 52) \<le> - overflow_threshold"
    using lt gt by linarith+
  then show ?thesis
    using assms(4) x by (simp add: round64_def ulp_exponent_eq [OF assms(1-3)] Let_def)
qed

lemma round64_one: "round64 1 = Finite 1"
  using round64_eq [of 0 1 "2 ^ 52"] by (simp add: pow2_def round_half_even_def)

lemma round64_one_tie: "round64 (1 + 1 / 2 ^ 53) = Finite 1"
  using round64_eq [of 0 "1 + 1 / 2 ^ 53" "2 ^ 52"] by (simp add: pow2_def round_half_even_def)

lemma round64_small: "round64 (1 / 2 ^ 53) = Finite (1 / 2 ^ 53)"
  using round64_eq [of "- 53" "1 / 2 ^ 53" "2 ^ 52"] by (simp add: pow2_def round_half_even_def)

lemma round64_small_twice: "round64 (1 / 2 ^ 53 + 1 / 2 ^ 53) = Finite (1 / 2 ^ 52)"
  using round64_eq [of "- 52" "1 / 2 ^ 53 + 1 / 2 ^ 53" "2 ^ 52"] by (simp add: pow2_def round_half_even_def)

lemma round64_one_above: "round64 (1 / 2 ^ 52 + 1) = Finite (1 + 1 / 2 ^ 52)"
  using round64_eq [of 0 "1 / 2 ^ 52 + 1" "2 ^ 52 + 1"] by (simp add: pow2_def round_half_even_def)

lemma round64_third: "round64 (1 / 3) = Finite (6004799503160661 / 2 ^ 54)"
  using round64_eq [of "- 2" "1 / 3" "6004799503160661"] by (simp add: pow2_def round_half_even_def)

lemma round64_third_above: "round64 ((1 + 1 / 2 ^ 52) / 3) = Finite (6004799503160663 / 2 ^ 54)"
  using round64_eq [of "- 2" "(1 + 1 / 2 ^ 52) / 3" "6004799503160663"] by (simp add: pow2_def round_half_even_def)

lemma train_batches_total:
  "snd (train_batches fw hp bs (w, t)) = foldl (float_add fw) t (batch_losses fw hp bs w)"
proof (induction bs arbitrary: w t)
  case Nil
  show ?case by simp
next
  case (Cons b bs)
  show ?case by (simp add: Cons.IH Let_def split: prod.splits)
qed

lemma length_batch_losses: "length (batch_losses fw hp bs w) = length bs"
  by (induction bs arbitrary: w) simp_all

text \<open>
  C6, as the code has it.  For a non-empty sequence of batches the trainer returns the float
  quotient, by the number of batches, of the losses of the batches added up with float
  addition in the order of the batches, starting from 0: the arithmetic mean up to the
  rounding of each operation.  The value is determined by the sequence of the losses.
\<close>

theorem train_returns_running_mean:
  "(bs \<noteq> [] \<longrightarrow>
      fst (train fw hp bs w) =
        Inr (float_div fw
               (foldl (float_add fw) (Finite 0) (batch_losses fw hp bs (w\<lparr>training := True\<rparr>)))
               (length bs))) \<and>
   (batch_losses fw hp bs (w\<lparr>training := True\<rparr>) = batch_losses fw hp bs' (w'\<lparr>training := True\<rparr>) \<longrightarrow>
      fst (train fw hp bs w) = fst (train fw hp bs' w'))"
proof -
  have A: "bs \<noteq> [] \<longrightarrow>
      fst (train fw hp bs w) =
        Inr (float_div fw
               (foldl (float_add fw) (Finite 0) (batch_losses fw hp bs (w\<lparr>training := True\<rparr>)))
               (length bs))"
    by (simp add: train_result train_batches_total mean_loss_def)
  have B: "batch_losses fw hp bs (w\<lparr>training := True\<rparr>) = batch_losses fw hp bs' (w'\<lparr>training := True\<rparr>) \<longrightarrow>
      fst (train fw hp bs w) = fst (train fw hp bs' w')"
  proof
    assume h: "batch_losses fw hp bs (w\<lparr>training := True\<rparr>) = batch_losses fw hp bs' (w'\<lparr>training := True\<rparr>)"
    have "length bs = length bs'"
      using arg_cong [OF h, of length] by (simp add: length_batch_losses)
    then show "fst (train fw hp bs w) = fst (train fw hp bs' w')"
      by (simp add: train_result train_batches_total h)
  qed
  show ?thesis by (intro conjI A B)
qed

theorem train_returns_running_mean_witness:
  "[(), ()] \<noteq> [] \<and>
   batch_losses (table_framework []) (table_hp 1) [(), ()]
      ((init_world (table_framework []) (table_hp 1))\<lparr>training := True\<rparr>) = [Finite 1, Finite 1] \<and>
   batch_losses (table_framework []) (table_hp 1) [(), ()]
      ((init_world (table_framework []) (table_hp 1))\<lparr>training := True\<rparr>) =
   batch_losses (table_framework []) (table_hp 1) [(), ()]
      ((init_world (table_framework []) (table_hp 1))\<lparr>training := True, last_epoch := 7\<rparr>) \<and>
   fst (train (table_framework []) (table_hp 1) [(), ()] (init_world (table_framework []) (table_hp 1)))
     = Inr (Finite 1) \<and>
   fst (train (table_framework []) (table_hp 1) [(), ()]
      ((init_world (table_framework []) (table_hp 1))\<lparr>last_epoch := 7\<rparr>)) = Inr (Finite 1)"
  using train_returns_running_mean [where fw = "table_framework []" and hp = "table_hp 1"
      and bs = "[(), ()]" and bs' = "[(), ()]"
      and w = "init_world (table_framework []) (table_hp 1)"
      and w' = "(init_world (table_framework []) (table_hp 1))\<lparr>last_epoch := 7\<rparr>"]
  by (simp add: run_defs)

text \<open>
  C6 as stated fails in binary64: the losses 1, \<open>2 ^ (- 53)\<close>, \<open>2 ^ (- 53)\<close> add up to 1 in this
  order (twice a tie that goes to the even significand) and to \<open>1 + 2 ^ (- 52)\<close> when the
  two small losses come first, and the two quotients by 3 differ.
\<close>

theorem mean_order_counterexample:
  "batch_losses binary64_framework (table_hp 1) [Finite 1, Finite (1 / 2 ^ 53), Finite (1 / 2 ^ 53)]
      ((init_world binary64_framework (table_hp 1))\<lparr>training := True\<rparr>)
     = [Finite 1, Finite (1 / 2 ^ 53), Finite (1 / 2 ^ 53)] \<and>
   batch_losses binary64_framework (table_hp 1) [Finite (1 / 2 ^ 53), Finite (1 / 2 ^ 53), Finite 1]
      ((init_world binary64_framework (table_hp 1))\<lparr>training := True\<rparr>)
     = [Finite (1 / 2 ^ 53), Finite (1 / 2 ^ 53), Finite 1] \<and>
   mset [Finite 1, Finite (1 / 2 ^ 53), Finite (1 / 2 ^ 53)]
     = mset [Finite (1 / 2 ^ 53), Finite (1 / 2 ^ 53), Finite 1] \<and>
   fst (train binary64_framework (table_hp 1) [Finite 1, Finite (1 / 2 ^ 53), Finite (1 / 2 ^ 53)]
      (init_world binary64_framework (table_hp 1)))
     = Inr (Finite (6004799503160661 / 2 ^ 54)) \<and>
   fst (train binary64_framework (table_hp 1) [Finite (1 / 2 ^ 53), Finite (1 / 2 ^ 53), Finite 1]
      (init_world binary64_framework (table_hp 1)))
     = Inr (Finite (6004799503160663 / 2 ^ 54)) \<and>
   fst (train binary64_framework (table_hp 1) [Finite 1, Finite (1 / 2 ^ 53), Finite (1 / 2 ^ 53)]
      (init_world binary64_framework (table_hp 1))) \<noteq>
   fst (train binary64_framework (table_hp 1) [Finite (1 / 2 ^ 53), Finite (1 / 2 ^ 53), Finite 1]
      (init_world binary64_framework (table_hp 1)))"
proof -
  let ?F = "binary64_framework"
  let ?H = "table_hp 1"
  let ?W = "init_world binary64_framework (table_hp 1)"
  let ?A = "[Finite 1, Finite (1 / 2 ^ 53), Finite (1 / 2 ^ 53)]"
  let ?B = "[Finite (1 / 2 ^ 53), Finite (1 / 2 ^ 53), Finite 1]"
  have fa: "float_add ?F = binary64_add" and fd: "float_div ?F = binary64_div"
    by (simp_all add: binary64_framework_def)
  have n3: "real (Suc (Suc (Suc 0))) = 3" by simp
  have LA: "batch_losses ?F ?H ?A (?W\<lparr>training := True\<rparr>) = ?A"
    by (simp add: binary64_framework_def)
  have LB: "batch_losses ?F ?H ?B (?W\<lparr>training := True\<rparr>) = ?B"
    by (simp add: binary64_framework_def)
  have a1: "binary64_add (Finite 0) (Finite 1) = Finite 1"
    using round64_one by simp
  have a2: "binary64_add (Finite 1) (Finite (1 / 2 ^ 53)) = Finite 1"
    by (simp only: binary64_add.simps round64_one_tie)
  have SA: "foldl binary64_add (Finite 0) ?A = Finite 1"
    by (simp only: foldl.simps a1 a2)
  have DA: "binary64_div (Finite 1) (Suc (Suc (Suc 0))) = Finite (6004799503160661 / 2 ^ 54)"
    by (simp only: binary64_div.simps n3 round64_third)
  have b1: "binary64_add (Finite 0) (Finite (1 / 2 ^ 53)) = Finite (1 / 2 ^ 53)"
    using round64_small by simp
  have b2: "binary64_add (Finite (1 / 2 ^ 53)) (Finite (1 / 2 ^ 53)) = Finite (1 / 2 ^ 52)"
    by (simp only: binary64_add.simps round64_small_twice)
  have b3: "binary64_add (Finite (1 / 2 ^ 52)) (Finite 1) = Finite (1 + 1 / 2 ^ 52)"
    by (simp only: binary64_add.simps round64_one_above)
  have SB: "foldl binary64_add (Finite 0) ?B = Finite (1 + 1 / 2 ^ 52)"
    by (simp only: foldl.simps b1 b2 b3)
  have DB: "binary64_div (Finite (1 + 1 / 2 ^ 52)) (Suc (Suc (Suc 0))) = Finite (6004799503160663 / 2 ^ 54)"
    by (simp only: binary64_div.simps n3 round64_third_above)
  have len: "length ?A = Suc (Suc (Suc 0))" "length ?B = Suc (Suc (Suc 0))"
    by simp_all
  have m: "mean_loss ?F t (Suc (Suc (Suc 0))) = Inr (binary64_div t (Suc (Suc (Suc 0))))" for t
    by (simp only: mean_loss_def fd nat.distinct if_False)
  have TA: "fst (train ?F ?H ?A ?W) = Inr (Finite (6004799503160661 / 2 ^ 54))"
    by (simp only: train_result train_batches_total LA fa SA len m DA)
  have TB: "fst (train ?F ?H ?B ?W) = Inr (Finite (6004799503160663 / 2 ^ 54))"
    by (simp only: train_result train_batches_total LB fa SB len m DB)
  have M: "mset ?A = mset ?B" by simp
  have N: "fst (train ?F ?H ?A ?W) \<noteq> fst (train ?F ?H ?B ?W)"
    unfolding TA TB by simp
  show ?thesis by (intro conjI LA LB M TA TB N)
qed

section \<open>The division by the number of batches\<close>

text \<open>
  C10.  On an empty batch sequence the division at the end of \<open>train\<close> and of \<open>validate\<close>
  raises ZeroDivisionError.  With at least one batch neither raises: \<open>train\<close> returns the
  accumulated losses of its batches, and \<open>validate\<close> the accumulated losses of its batches
  in evaluation mode, each divided by the number of batches.
\<close>

theorem mean_needs_a_batch:
  "fst (train fw hp [] w) = Inl ZeroDivisionError \<and>
   fst (validate fw [] w) = Inl ZeroDivisionError \<and>
   (bs \<noteq> [] \<longrightarrow>
      fst (train fw hp bs w) =
        Inr (float_div fw
               (foldl (float_add fw) (Finite 0) (batch_losses fw hp bs (w\<lparr>training := True\<rparr>)))
               (length bs)) \<and>
      fst (validate fw bs w) =
        Inr (float_div fw
               (foldl (float_add fw) (Finite 0) (map (forward_loss fw False (params w)) bs))
               (length bs)))"
  by (simp add: train_result train_batches_total validate_value mean_loss_def)

theorem mean_needs_a_batch_witness:
  "[(), ()] \<noteq> [] \<and>
   batch_losses (table_framework [Finite 3]) (table_hp 1) [(), ()] (((init_world (table_framework [Finite 3]) (table_hp 1))\<lparr>params := 1\<rparr>)\<lparr>training := True\<rparr>) = [Finite 1, Finite 1] \<and>
   fst (train (table_framework [Finite 3]) (table_hp 1) [(), ()] ((init_world (table_framework [Finite 3]) (table_hp 1))\<lparr>params := 1\<rparr>)) = Inr (Finite 1) \<and>
   map (forward_loss (table_framework [Finite 3]) False (params ((init_world (table_framework [Finite 3]) (table_hp 1))\<lparr>params := 1\<rparr>))) [(), ()] = [Finite 3, Finite 3] \<and>
   fst (validate (table_framework [Finite 3]) [(), ()] ((init_world (table_framework [Finite 3]) (table_hp 1))\<lparr>params := 1\<rparr>)) = Inr (Finite 3)"
  using mean_needs_a_batch [where fw = "table_framework [Finite 3]" and hp = "table_hp 1" and bs = "[(), ()]"
      and w = "(init_world (table_framework [Finite 3]) (table_hp 1))\<lparr>params := 1\<rparr>"]
  by (simp add: run_defs)

end
